theory Spec2Isabelle
  imports Complex_Main "HOL-Library.Log_Nat"
begin

section \<open>JavaScript values of the summarize route\<close>

text \<open>
  Every value that \<^verbatim>\<open>src/app/api/summarize/route.ts\<close> handles comes out of
  \<^verbatim>\<open>request.json()\<close>, out of \<^verbatim>\<open>JSON.parse\<close> or out of an object literal of the
  file, or is the \<^verbatim>\<open>undefined\<close> that reading an absent property gives. A number is
  therefore a finite double or, for a literal beyond the double range, an infinity;
  \<^verbatim>\<open>NaN\<close> is not a JSON number and no expression of the route computes one. Finite
  doubles are read as the reals they denote (rounding plays no part in \<^verbatim>\<open>Math.min\<close>,
  \<^verbatim>\<open>Math.max\<close> and comparisons), and \<^verbatim>\<open>-0\<close> is identified with \<^verbatim>\<open>0\<close>.

  An object is its list of properties; reading a property takes the first entry with
  that key.
\<close>

datatype jsnum = NegInf | Fin real | PosInf

datatype js =
    JUndefined
  | JNull
  | JBool bool
  | JNum jsnum
  | JStr string
  | JArr "js list"
  | JObj "(string \<times> js) list"

type_synonym obj = "(string \<times> js) list"

text \<open>\<^verbatim>\<open>o.k\<close> on an object.\<close>

definition lookup :: "obj \<Rightarrow> string \<Rightarrow> js" where
  "lookup ps k = (case map_of ps k of None \<Rightarrow> JUndefined | Some v \<Rightarrow> v)"

text \<open>JavaScript's ToBoolean.\<close>

fun truthy :: "js \<Rightarrow> bool" where
  "truthy JUndefined = False"
| "truthy JNull = False"
| "truthy (JBool b) = b"
| "truthy (JNum n) = (n \<noteq> Fin 0)"
| "truthy (JStr s) = (s \<noteq> [])"
| "truthy (JArr xs) = True"
| "truthy (JObj ps) = True"

text \<open>\<^verbatim>\<open>a || b\<close>.\<close>

definition js_or :: "js \<Rightarrow> js \<Rightarrow> js" where
  "js_or a b = (if truthy a then a else b)"

text \<open>\<^verbatim>\<open>Array.isArray\<close>.\<close>

fun isArray :: "js \<Rightarrow> bool" where
  "isArray (JArr xs) = True"
| "isArray v = False"

fun js_le :: "jsnum \<Rightarrow> jsnum \<Rightarrow> bool" where
  "js_le NegInf b = True"
| "js_le (Fin x) NegInf = False"
| "js_le (Fin x) (Fin y) = (x \<le> y)"
| "js_le (Fin x) PosInf = True"
| "js_le PosInf PosInf = True"
| "js_le PosInf b = False"

definition Math_max :: "jsnum \<Rightarrow> jsnum \<Rightarrow> jsnum" where
  "Math_max a b = (if js_le a b then b else a)"

definition Math_min :: "jsnum \<Rightarrow> jsnum \<Rightarrow> jsnum" where
  "Math_min a b = (if js_le a b then a else b)"

section \<open>The Summary Response Normalizer\<close>

text \<open>
  \<^verbatim>\<open>validateAndNormalizeSummary\<close> (summarize/route.ts, lines 188 to 203). Its parameter
  has the type \<^verbatim>\<open>Partial<SummaryResult>\<close>, an object; the result is the object literal
  of the source, property by property and in its order.
\<close>

definition array_or_empty :: "js \<Rightarrow> js" where
  "array_or_empty v = (if isArray v then v else JArr [])"

definition clamp_confidence :: "js \<Rightarrow> js" where
  "clamp_confidence v =
     (case v of
        JNum n \<Rightarrow> JNum (Math_min (Fin 1) (Math_max (Fin 0) n))
      | _ \<Rightarrow> JNum (Fin 0.5))"

definition validateAndNormalizeSummary :: "obj \<Rightarrow> obj" where
  "validateAndNormalizeSummary summary =
     [(''short_summary'',
         js_or (lookup summary ''short_summary'')
           (JStr ''Unable to generate summary - document analysis incomplete'')),
      (''parties'', array_or_empty (lookup summary ''parties'')),
      (''important_dates'', array_or_empty (lookup summary ''important_dates'')),
      (''obligations'', array_or_empty (lookup summary ''obligations'')),
      (''payment_terms'', js_or (lookup summary ''payment_terms'') JNull),
      (''termination_clauses'', js_or (lookup summary ''termination_clauses'') JNull),
      (''governing_law'', js_or (lookup summary ''governing_law'') JNull),
      (''risk_flags'', array_or_empty (lookup summary ''risk_flags'')),
      (''suggested_redactions'', array_or_empty (lookup summary ''suggested_redactions'')),
      (''confidence_score'', clamp_confidence (lookup summary ''confidence_score''))]"

text \<open>The field invariants of a Summary Result, as predicates on a property value.\<close>

fun nonempty_string :: "js \<Rightarrow> bool" where
  "nonempty_string (JStr s) = (s \<noteq> [])"
| "nonempty_string v = False"

fun string_or_null :: "js \<Rightarrow> bool" where
  "string_or_null JNull = True"
| "string_or_null (JStr s) = (s \<noteq> [])"
| "string_or_null v = False"

fun in_unit_interval :: "js \<Rightarrow> bool" where
  "in_unit_interval (JNum (Fin x)) = (0 \<le> x \<and> x \<le> 1)"
| "in_unit_interval v = False"

text \<open>
  A candidate property that is a string or that is falsy (absent, \<^verbatim>\<open>null\<close>,
  \<^verbatim>\<open>false\<close>, \<^verbatim>\<open>0\<close>).
\<close>

fun string_or_falsy :: "js \<Rightarrow> bool" where
  "string_or_falsy (JStr s) = True"
| "string_or_falsy v = (\<not> truthy v)"

definition summary_invariant :: "obj \<Rightarrow> bool" where
  "summary_invariant r \<longleftrightarrow>
     nonempty_string (lookup r ''short_summary'') \<and>
     isArray (lookup r ''parties'') \<and>
     isArray (lookup r ''important_dates'') \<and>
     isArray (lookup r ''obligations'') \<and>
     isArray (lookup r ''risk_flags'') \<and>
     isArray (lookup r ''suggested_redactions'') \<and>
     string_or_null (lookup r ''payment_terms'') \<and>
     string_or_null (lookup r ''termination_clauses'') \<and>
     string_or_null (lookup r ''governing_law'') \<and>
     in_unit_interval (lookup r ''confidence_score'')"

section \<open>The Mock/Fallback Generator\<close>

text \<open>\<^verbatim>\<open>getMockSummary\<close> (summarize/route.ts, lines 208 to 263).\<close>

definition getMockSummary :: obj where
  "getMockSummary =
     [(''short_summary'',
         JStr ''This is a service agreement between two companies establishing terms for consulting services.''),
      (''parties'', JArr
         [JObj [(''role'', JStr ''Service Provider''),
                (''name'', JStr ''Example Consulting LLC''),
                (''excerpt'', JStr ''Example Consulting LLC, a Delaware limited liability company'')],
          JObj [(''role'', JStr ''Client''),
                (''name'', JStr ''Business Corp''),
                (''excerpt'', JStr ''Business Corp, a California corporation'')]]),
      (''important_dates'', JArr
         [JObj [(''type'', JStr ''Effective Date''),
                (''date'', JStr ''2024-01-15''),
                (''excerpt'', JStr ''This Agreement is effective as of January 15, 2024'')],
          JObj [(''type'', JStr ''Initial Term End''),
                (''date'', JStr ''2025-01-15''),
                (''excerpt'', JStr ''The initial term shall end on January 15, 2025'')]]),
      (''obligations'', JArr
         [JObj [(''who'', JStr ''Service Provider''),
                (''action'', JStr ''Provide monthly consulting services as outlined in Exhibit A''),
                (''excerpt'', JStr ''Provider shall deliver consulting services according to the scope in Exhibit A'')],
          JObj [(''who'', JStr ''Client''),
                (''action'', JStr ''Pay invoices within 30 days of receipt''),
                (''excerpt'', JStr ''Client agrees to pay all invoices within thirty (30) days'')]]),
      (''payment_terms'',
         JStr ''Monthly invoicing with Net 30 payment terms. Late payments subject to 1.5% monthly interest.''),
      (''termination_clauses'',
         JStr ''Either party may terminate with 30 days written notice. Immediate termination allowed for material breach.''),
      (''governing_law'', JStr ''State of Delaware''),
      (''risk_flags'', JArr
         [JObj [(''score'', JNum (Fin 4)),
                (''reason'', JStr ''Broad indemnification clause may expose client to significant liability'')],
          JObj [(''score'', JNum (Fin 2)),
                (''reason'', JStr ''Standard limitation of liability clause limits provider exposure'')]]),
      (''suggested_redactions'', JArr []),
      (''confidence_score'', JNum (Fin 0.95))]"

section \<open>The summarize endpoint\<close>

text \<open>
  \<^verbatim>\<open>POST\<close> of summarize/route.ts (lines 90 to 183). Exceptions are values of \<open>exn\<close>;
  the text of a \<^verbatim>\<open>TypeError\<close> is the engine's, the model keeps which operation failed.
  What the handler does besides answering is recorded as a list of effects, in order:
  the console lines and the call of the summarization backend. The backend is a
  parameter, \<open>generateContent\<close>, from the \<^verbatim>\<open>input\<close> object of the source to the text of
  the answer or the exception of the call; the prompt is the fixed template around
  \<^verbatim>\<open>JSON.stringify(input, null, 2)\<close>, a function of \<^verbatim>\<open>input\<close> alone. \<^verbatim>\<open>JSON.parse\<close> is
  a parameter too (\<open>None\<close> when it throws).
\<close>

datatype exn = Error string | TypeError string | SyntaxError string

fun message :: "exn \<Rightarrow> string" where
  "message (Error m) = m"
| "message (TypeError m) = m"
| "message (SyntaxError m) = m"

datatype effect =
    ConsoleWarn string
  | ConsoleError string string
  | GenerateContent js

record http_response =
  resp_status :: nat
  resp_body :: js

record summarize_env =
  SKIP_LLM :: "string option"
  GEMINI_API_KEY :: "string option"

text \<open>\<^verbatim>\<open>NextResponse.json(v)\<close> and \<^verbatim>\<open>NextResponse.json(v, { status })\<close>.\<close>

definition NextResponse_json :: "js \<Rightarrow> http_response" where
  "NextResponse_json v = \<lparr>resp_status = 200, resp_body = v\<rparr>"

definition NextResponse_json_status :: "js \<Rightarrow> nat \<Rightarrow> http_response" where
  "NextResponse_json_status v st = \<lparr>resp_status = st, resp_body = v\<rparr>"

text \<open>
  Reading a property of a value that is neither \<^verbatim>\<open>null\<close> nor \<^verbatim>\<open>undefined\<close>: an
  object gives the property, anything else has none of the properties the route reads.
\<close>

fun js_get :: "js \<Rightarrow> string \<Rightarrow> js" where
  "js_get (JObj ps) k = lookup ps k"
| "js_get v k = JUndefined"

fun nullish :: "js \<Rightarrow> bool" where
  "nullish JUndefined = True"
| "nullish JNull = True"
| "nullish v = False"

text \<open>\<^verbatim>\<open>page.blocks.slice(0, 50)\<close>: arrays and strings have \<^verbatim>\<open>slice\<close>.\<close>

fun slice_0_50 :: "js \<Rightarrow> exn + js" where
  "slice_0_50 (JArr xs) = Inr (JArr (take 50 xs))"
| "slice_0_50 (JStr s) = Inr (JStr (take 50 s))"
| "slice_0_50 JUndefined = Inl (TypeError ''Cannot read properties of undefined (reading slice)'')"
| "slice_0_50 JNull = Inl (TypeError ''Cannot read properties of null (reading slice)'')"
| "slice_0_50 v = Inl (TypeError ''page.blocks.slice is not a function'')"

text \<open>The arrow function given to \<^verbatim>\<open>ocrData.ocr.map\<close> (lines 137 to 142).\<close>

definition input_page :: "js \<Rightarrow> exn + js" where
  "input_page page =
     (if nullish page then Inl (TypeError ''Cannot read properties of null (reading page)'')
      else case slice_0_50 (js_get page ''blocks'') of
             Inl e \<Rightarrow> Inl e
           | Inr blocks \<Rightarrow>
               Inr (JObj [(''page'', js_get page ''page''),
                          (''text'', js_get page ''text''),
                          (''blocks'', blocks),
                          (''entities'', js_get page ''entities'')]))"

fun map_input_page :: "js list \<Rightarrow> exn + js list" where
  "map_input_page [] = Inr []"
| "map_input_page (p # ps) =
     (case input_page p of
        Inl e \<Rightarrow> Inl e
      | Inr q \<Rightarrow> (case map_input_page ps of Inl e \<Rightarrow> Inl e | Inr qs \<Rightarrow> Inr (q # qs)))"

text \<open>The \<^verbatim>\<open>input\<close> object (lines 135 to 144), the payload of the backend call.\<close>

definition gemini_input :: "js \<Rightarrow> js \<Rightarrow> exn + js" where
  "gemini_input ocrData user_instructions =
     (case js_get ocrData ''ocr'' of
        JArr pages \<Rightarrow>
          (case map_input_page pages of
             Inl e \<Rightarrow> Inl e
           | Inr ps \<Rightarrow>
               Inr (JObj [(''meta'', js_get ocrData ''meta''),
                          (''ocr'', JArr ps),
                          (''user_instructions'',
                             js_or user_instructions
                               (JStr ''Analyze this legal document thoroughly''))]))
      | _ \<Rightarrow> Inl (TypeError ''ocrData.ocr.map is not a function''))"

text \<open>
  \<^verbatim>\<open>text.match(/\{[\s\S]*\}/)\<close>: from the first opening brace to the last closing
  brace after it.
\<close>

definition match_json :: "string \<Rightarrow> string option" where
  "match_json text =
     (let s = dropWhile (\<lambda>c. c \<noteq> CHR ''{'') text;
          r = rev (dropWhile (\<lambda>c. c \<noteq> CHR ''}'') (rev s))
      in if r = [] then None else Some r)"

text \<open>
  The call of \<^verbatim>\<open>validateAndNormalizeSummary\<close> on what \<^verbatim>\<open>JSON.parse\<close> returned: a
  property read throws on \<^verbatim>\<open>null\<close>, and finds nothing on a value that is not an object.
\<close>

definition normalize_parsed :: "js \<Rightarrow> exn + js" where
  "normalize_parsed summary =
     (if nullish summary
      then Inl (TypeError ''Cannot read properties of null (reading short_summary)'')
      else case summary of
             JObj ps \<Rightarrow> Inr (JObj (validateAndNormalizeSummary ps))
           | _ \<Rightarrow> Inr (JObj (validateAndNormalizeSummary [])))"

text \<open>Lines 147 to 171: the backend call, the parse of its answer, the normalization.\<close>

definition call_backend ::
  "(string \<Rightarrow> js option) \<Rightarrow> (js \<Rightarrow> exn + string) \<Rightarrow> js \<Rightarrow>
     (exn + http_response) \<times> effect list" where
  "call_backend JSON_parse generateContent input =
     (case generateContent input of
        Inl e \<Rightarrow> (Inl e, [GenerateContent input])
      | Inr text \<Rightarrow>
          (case (case match_json text of None \<Rightarrow> None | Some j \<Rightarrow> JSON_parse j) of
             None \<Rightarrow>
               (Inl (Error ''Failed to parse summary response''),
                [GenerateContent input,
                 ConsoleError ''Failed to parse Gemini response:'' text])
           | Some summary \<Rightarrow>
               (case normalize_parsed summary of
                  Inl e \<Rightarrow> (Inl e, [GenerateContent input])
                | Inr s \<Rightarrow> (Inr (NextResponse_json s), [GenerateContent input]))))"

text \<open>
  The body of the \<^verbatim>\<open>try\<close> block. \<open>req\<close> is what \<^verbatim>\<open>await request.json()\<close> gives: the
  parsed body, or the exception it rejects with.
\<close>

definition summarize_POST_try ::
  "summarize_env \<Rightarrow> (string \<Rightarrow> js option) \<Rightarrow> (js \<Rightarrow> exn + string) \<Rightarrow> exn + js \<Rightarrow>
     (exn + http_response) \<times> effect list" where
  "summarize_POST_try env JSON_parse generateContent req =
     (case req of
        Inl e \<Rightarrow> (Inl e, [])
      | Inr body \<Rightarrow>
          if nullish body
          then (Inl (TypeError ''Cannot destructure property ocr_result of body''), [])
          else
            let ocr_result = js_get body ''ocr_result'';
                user_instructions = js_get body ''user_instructions''
            in
              if \<not> truthy ocr_result
              then (Inr (NextResponse_json_status
                           (JObj [(''error'', JStr ''No OCR result provided'')]) 400), [])
              else if SKIP_LLM env = Some ''true''
              then (Inr (NextResponse_json (JObj getMockSummary)), [])
              else if \<not> truthy (js_get ocr_result ''meta'') \<or> \<not> truthy (js_get ocr_result ''ocr'')
              then (Inr (NextResponse_json_status
                           (JObj [(''error'', JStr ''Invalid OCR result structure'')]) 400), [])
              else
                (case GEMINI_API_KEY env of
                   None \<Rightarrow>
                     (Inr (NextResponse_json (JObj getMockSummary)),
                      [ConsoleWarn ''GEMINI_API_KEY not set - using mock response''])
                 | Some apiKey \<Rightarrow>
                     if apiKey = []
                     then (Inr (NextResponse_json (JObj getMockSummary)),
                           [ConsoleWarn ''GEMINI_API_KEY not set - using mock response''])
                     else
                       (case gemini_input ocr_result user_instructions of
                          Inl e \<Rightarrow> (Inl e, [])
                        | Inr input \<Rightarrow> call_backend JSON_parse generateContent input)))"

text \<open>The handler: the \<^verbatim>\<open>try\<close> block and its \<^verbatim>\<open>catch\<close> (lines 172 to 182).\<close>

definition summarize_POST ::
  "summarize_env \<Rightarrow> (string \<Rightarrow> js option) \<Rightarrow> (js \<Rightarrow> exn + string) \<Rightarrow> exn + js \<Rightarrow>
     http_response \<times> effect list" where
  "summarize_POST env JSON_parse generateContent req =
     (case summarize_POST_try env JSON_parse generateContent req of
        (Inr response, effects) \<Rightarrow> (response, effects)
      | (Inl e, effects) \<Rightarrow>
          (NextResponse_json_status
             (JObj [(''error'', JStr ''Summarization failed''),
                    (''details'', JStr (message e))]) 500,
           effects @ [ConsoleError ''Summarization error:'' (message e)]))"

text \<open>The payloads of the backend calls among the effects of a handler, in order.\<close>

fun backend_payloads :: "effect list \<Rightarrow> js list" where
  "backend_payloads [] = []"
| "backend_payloads (GenerateContent i # fx) = i # backend_payloads fx"
| "backend_payloads (e # fx) = backend_payloads fx"

section \<open>The canonical OCR representation\<close>

text \<open>
  The interfaces of \<^verbatim>\<open>src/app/api/ocr/route.ts\<close> (lines 4 to 41). The numbers of the OCR
  route come from the provider's SDK: finite doubles, read as the reals they denote.

  The arithmetic on the confidences is that of binary64. \<open>round64\<close> rounds a real to
  the nearest double, ties to the even significand: the quantum of a real is the
  spacing of the doubles around it, \<open>2 powi (e - 52)\<close> for a magnitude in
  \<open>[2 powi e, 2 powi (e + 1))\<close> and \<open>2 powi (- 1074)\<close> below \<open>2 powi (- 1022)\<close>.
  \<open>binary64\<close> is the result of an operation whose exact value is its argument: the
  rounded value, or \<open>None\<close> when that lies beyond the largest double and JavaScript
  gives an infinity. \<open>None\<close> stands for a value that is no finite number (an infinity
  or \<^verbatim>\<open>NaN\<close>): adding a finite number to it or dividing it by a count leaves it so,
  and a division by zero gives it. The count of the blocks is an integer below
  \<open>2 ^ 53\<close>, a double as it is.

  The subtraction of \<^verbatim>\<open>extractBoundingBox\<close> is left as the exact difference.
\<close>

definition round_even :: "real \<Rightarrow> int" where
  "round_even y =
     (let f = \<lfloor>y\<rfloor>; r = y - of_int f
      in if r < 1 / 2 then f else if 1 / 2 < r then f + 1 else if even f then f else f + 1)"

definition quantum :: "real \<Rightarrow> real" where
  "quantum x = 2 powi (max (bitlen \<lfloor>\<bar>x\<bar> * 2 ^ 1074\<rfloor> - 53) 0 - 1074)"

definition round64 :: "real \<Rightarrow> real" where
  "round64 x = sgn x * (of_int (round_even (\<bar>x\<bar> / quantum x)) * quantum x)"

definition max64 :: real where
  "max64 = (2 ^ 53 - 1) * 2 ^ 971"

definition binary64 :: "real \<Rightarrow> real option" where
  "binary64 x = (if \<bar>round64 x\<bar> \<le> max64 then Some (round64 x) else None)"

text \<open>\<^verbatim>\<open>t + c\<close> and \<^verbatim>\<open>t / b\<close> for a running value \<open>t\<close> and finite \<open>c\<close> and \<open>b\<close>.\<close>

definition js_add :: "real option \<Rightarrow> real \<Rightarrow> real option" where
  "js_add t c = (case t of None \<Rightarrow> None | Some s \<Rightarrow> binary64 (s + c))"

definition js_div :: "real option \<Rightarrow> real \<Rightarrow> real option" where
  "js_div t b =
     (case t of None \<Rightarrow> None | Some a \<Rightarrow> if b = 0 then None else binary64 (a / b))"

datatype blockType = LINE | WORD | PARAGRAPH

record boundingBox =
  box_x :: real
  box_y :: real
  box_width :: real
  box_height :: real

record OCRBlock =
  block_id :: string
  block_text :: string
  block_confidence :: real
  block_boundingBox :: boundingBox
  block_blockType :: blockType

record OCREntity =
  entity_type :: string
  entity_text :: string
  entity_page :: nat
  entity_confidence :: real
  entity_mentionText :: "string option"

record OCRPageResult =
  page_page :: nat
  page_text :: string
  page_blocks :: "OCRBlock list"
  page_entities :: "OCREntity list"
  page_confidence :: "real option"

record OCRMeta =
  meta_filename :: js
  meta_pages :: nat
  meta_provider :: string
  meta_processedAt :: string

record OCRResult =
  meta :: OCRMeta
  ocr :: "OCRPageResult list"

section \<open>Small pieces of JavaScript used by the adapters\<close>

text \<open>\<^verbatim>\<open>v || 0\<close> on an optional number and \<^verbatim>\<open>s || d\<close> on an optional string.\<close>

definition num_or_zero :: "real option \<Rightarrow> real" where
  "num_or_zero v = (case v of None \<Rightarrow> 0 | Some r \<Rightarrow> r)"

definition str_or :: "string option \<Rightarrow> string \<Rightarrow> string" where
  "str_or v d = (case v of None \<Rightarrow> d | Some s \<Rightarrow> if s = [] then d else s)"

text \<open>A falsy optional string: absent or empty.\<close>

definition unset :: "string option \<Rightarrow> bool" where
  "unset v = (case v of None \<Rightarrow> True | Some s \<Rightarrow> s = [])"

text \<open>
  \<^verbatim>\<open>String.prototype.trim\<close>. A string is a list of 8-bit characters, the code units
  below 256; the white space and line terminators among them are the tab, the line
  feed, the vertical tab, the form feed, the carriage return, the space and the
  no-break space.
\<close>

definition is_space :: "char \<Rightarrow> bool" where
  "is_space c \<longleftrightarrow>
     c \<in> set [CHR 0x09, CHR 0x0A, CHR 0x0B, CHR 0x0C, CHR 0x0D, CHR 0x20, CHR 0xA0]"

definition trim :: "string \<Rightarrow> string" where
  "trim s = rev (dropWhile is_space (rev (dropWhile is_space s)))"

text \<open>\<^verbatim>\<open>s.substring(a, b)\<close> for indices that are natural numbers.\<close>

definition substring :: "string \<Rightarrow> nat \<Rightarrow> nat \<Rightarrow> string" where
  "substring s a b =
     (let a' = min a (length s); b' = min b (length s)
      in take (max a' b' - min a' b') (drop (min a' b') s))"

text \<open>The decimal digits of a number, as a template literal prints it.\<close>

fun string_of_nat :: "nat \<Rightarrow> string" where
  "string_of_nat n =
     (if n < 10 then [''0123456789'' ! n]
      else string_of_nat (n div 10) @ [''0123456789'' ! (n mod 10)])"

declare string_of_nat.simps [simp del]

section \<open>The Google Document AI adapter\<close>

text \<open>
  The part of the provider's document that the adapter reads. An optional field is
  \<open>None\<close> when it is \<^verbatim>\<open>undefined\<close> or \<^verbatim>\<open>null\<close>. The indices of a text segment are
  natural numbers (the SDK gives a number, a \<^verbatim>\<open>Long\<close> or a decimal string, which
  \<^verbatim>\<open>Number\<close> converts). The page of an entity, read by
  \<^verbatim>\<open>entity.pageAnchor?.pageRefs?.[0]?.page\<close>, is \<^verbatim>\<open>undefined\<close>, \<^verbatim>\<open>null\<close> or such a
  number.
\<close>

datatype g_page_ref = PageUndefined | PageNull | PageIndex nat

record g_vertex =
  vertex_x :: "real option"
  vertex_y :: "real option"

record g_boundingPoly =
  normalizedVertices :: "g_vertex list option"

record g_textSegment =
  startIndex :: "nat option"
  endIndex :: "nat option"

record g_textAnchor =
  textSegments :: "g_textSegment list option"

record g_layout =
  textAnchor :: "g_textAnchor option"
  layout_confidence :: "real option"
  boundingPoly :: "g_boundingPoly option"

text \<open>A block or a line of a page: both carry a \<^verbatim>\<open>layout\<close>.\<close>

record g_item =
  layout :: "g_layout option"

record g_page =
  g_blocks :: "g_item list option"
  g_lines :: "g_item list option"

record g_entity =
  g_type :: "string option"
  g_mentionText :: "string option"
  g_normalizedValue_text :: "string option"
  g_pageRef :: g_page_ref
  g_confidence :: "real option"

record g_document =
  g_text :: "string option"
  g_pages :: "g_page list option"
  g_entities :: "g_entity list option"

record g_response =
  g_document :: "g_document option"

type_synonym buffer = "nat list"

record g_request =
  request_name :: string
  request_content :: buffer
  request_mimeType :: js

text \<open>\<^verbatim>\<open>extractTextFromLayout\<close> (lines 365 to 378).\<close>

definition extractTextFromLayout :: "g_layout option \<Rightarrow> string \<Rightarrow> string" where
  "extractTextFromLayout lay fullText =
     (case lay of
        None \<Rightarrow> []
      | Some l \<Rightarrow>
          (case textAnchor l of
             None \<Rightarrow> []
           | Some a \<Rightarrow>
               (case textSegments a of
                  None \<Rightarrow> []
                | Some segments \<Rightarrow>
                    trim (foldl (\<lambda>text segment.
                            text @ substring fullText
                                     (case startIndex segment of None \<Rightarrow> 0 | Some i \<Rightarrow> i)
                                     (case endIndex segment of None \<Rightarrow> 0 | Some i \<Rightarrow> i))
                          [] segments))))"

text \<open>\<^verbatim>\<open>extractBoundingBox\<close> (lines 380 to 394).\<close>

definition zero_box :: boundingBox where
  "zero_box = \<lparr>box_x = 0, box_y = 0, box_width = 0, box_height = 0\<rparr>"

definition extractBoundingBox :: "g_boundingPoly option \<Rightarrow> boundingBox" where
  "extractBoundingBox poly =
     (case poly of
        None \<Rightarrow> zero_box
      | Some p \<Rightarrow>
          (case normalizedVertices p of
             None \<Rightarrow> zero_box
           | Some vertices \<Rightarrow>
               if length vertices < 4 then zero_box
               else
                 let x = num_or_zero (vertex_x (vertices ! 0));
                     y = num_or_zero (vertex_y (vertices ! 0));
                     width = num_or_zero (vertex_x (vertices ! 1)) - x;
                     height = num_or_zero (vertex_y (vertices ! 2)) - y
                 in \<lparr>box_x = x, box_y = y, box_width = width, box_height = height\<rparr>))"

text \<open>The variables that the loops of a page update.\<close>

record page_acc =
  blocks :: "OCRBlock list"
  entities :: "OCREntity list"
  pageText :: string
  totalConfidence :: "real option"
  confidenceCount :: nat

definition empty_acc :: page_acc where
  "empty_acc = \<lparr>blocks = [], entities = [], pageText = [], totalConfidence = Some 0,
                 confidenceCount = 0\<rparr>"

text \<open>
  One round of the loop over \<^verbatim>\<open>page.blocks\<close> (lines 169 to 186) or over
  \<^verbatim>\<open>page.lines\<close> (lines 191 to 208): the two differ in the prefix of the identifier
  and in the block type.
\<close>

definition push_item :: "string \<Rightarrow> blockType \<Rightarrow> nat \<Rightarrow> string \<Rightarrow> page_acc \<Rightarrow> g_item \<Rightarrow> page_acc" where
  "push_item prefix btype i fullText acc item =
     (case layout item of
        None \<Rightarrow> acc
      | Some l \<Rightarrow>
          let blockText = extractTextFromLayout (Some l) fullText;
              confidence = num_or_zero (layout_confidence l)
          in acc\<lparr>blocks := blocks acc @
                     [\<lparr>block_id = prefix @ ''-'' @ string_of_nat i @ ''-'' @
                                    string_of_nat (length (blocks acc)),
                       block_text = blockText,
                       block_confidence = confidence,
                       block_boundingBox = extractBoundingBox (boundingPoly l),
                       block_blockType = btype\<rparr>],
                  pageText := pageText acc @ blockText @ [CHR 0x0A],
                  totalConfidence := js_add (totalConfidence acc) confidence,
                  confidenceCount := confidenceCount acc + 1\<rparr>)"

text \<open>
  \<^verbatim>\<open>entityPage === undefined || Number(entityPage) === i\<close>; \<^verbatim>\<open>Number(null)\<close> is 0.
\<close>

fun on_page :: "g_page_ref \<Rightarrow> nat \<Rightarrow> bool" where
  "on_page PageUndefined i = True"
| "on_page PageNull i = (0 = i)"
| "on_page (PageIndex n) i = (n = i)"

text \<open>One round of the loop over \<^verbatim>\<open>document.entities\<close> (lines 213 to 225).\<close>

definition push_entity :: "nat \<Rightarrow> page_acc \<Rightarrow> g_entity \<Rightarrow> page_acc" where
  "push_entity i acc entity =
     (if on_page (g_pageRef entity) i
      then acc\<lparr>entities := entities acc @
                 [\<lparr>entity_type = str_or (g_type entity) ''UNKNOWN'',
                   entity_text =
                     str_or (g_mentionText entity) (str_or (g_normalizedValue_text entity) []),
                   entity_page = i + 1,
                   entity_confidence = num_or_zero (g_confidence entity),
                   entity_mentionText = g_mentionText entity\<rparr>]\<rparr>
      else acc)"

text \<open>The page confidence of both adapters (lines 233 and 350).\<close>

definition acc_confidence :: "page_acc \<Rightarrow> real option" where
  "acc_confidence acc =
     (if 0 < confidenceCount acc
      then js_div (totalConfidence acc) (real (confidenceCount acc))
      else Some 0)"

text \<open>\<^verbatim>\<open>document.pages?.length || 1\<close> and \<^verbatim>\<open>document.pages?.[i]\<close>.\<close>

definition pageCount :: "g_document \<Rightarrow> nat" where
  "pageCount document =
     (case g_pages document of
        None \<Rightarrow> 1
      | Some ps \<Rightarrow> if length ps = 0 then 1 else length ps)"

definition page_at :: "g_document \<Rightarrow> nat \<Rightarrow> g_page option" where
  "page_at document i =
     (case g_pages document of
        None \<Rightarrow> None
      | Some ps \<Rightarrow> if i < length ps then Some (ps ! i) else None)"

text \<open>The body of the loop over the pages (lines 159 to 235).\<close>

definition google_page :: "g_document \<Rightarrow> nat \<Rightarrow> OCRPageResult" where
  "google_page document i =
     (let page = page_at document i;
          fullText = str_or (g_text document) [];
          acc1 = (case page of
                    None \<Rightarrow> empty_acc
                  | Some p \<Rightarrow>
                      (case g_blocks p of
                         None \<Rightarrow> empty_acc
                       | Some bs \<Rightarrow> foldl (push_item ''block'' PARAGRAPH i fullText) empty_acc bs));
          acc2 = (if length (blocks acc1) = 0
                  then (case page of
                          None \<Rightarrow> acc1
                        | Some p \<Rightarrow>
                            (case g_lines p of
                               None \<Rightarrow> acc1
                             | Some ls \<Rightarrow> foldl (push_item ''line'' LINE i fullText) acc1 ls))
                  else acc1);
          acc3 = (case g_entities document of
                    None \<Rightarrow> acc2
                  | Some es \<Rightarrow> foldl (push_entity i) acc2 es)
      in \<lparr>page_page = i + 1,
          page_text = trim (pageText acc3),
          page_blocks = blocks acc3,
          page_entities = entities acc3,
          page_confidence = acc_confidence acc3\<rparr>)"

text \<open>
  The configuration that the OCR route reads from the environment. The handler's
  \<^verbatim>\<open>OCR_PROVIDER\<close> constant is \<^verbatim>\<open>process.env.OCR_PROVIDER || 'google'\<close>.
\<close>

record ocr_env =
  env_OCR_PROVIDER :: "string option"
  GOOGLE_CLOUD_PROJECT_ID :: "string option"
  GOOGLE_CLOUD_LOCATION :: "string option"
  GOOGLE_DOCUMENT_AI_PROCESSOR_ID :: "string option"
  GOOGLE_SERVICE_ACCOUNT_EMAIL :: "string option"
  GOOGLE_PRIVATE_KEY :: "string option"

text \<open>
  \<^verbatim>\<open>processWithGoogleDocumentAI\<close> (lines 101 to 246). \<open>processDocument\<close> is the call of
  the provider, from the request to the response or to the exception of the call;
  \<open>now\<close> is \<^verbatim>\<open>new Date().toISOString()\<close> at the end of the processing. The
  credentials go to the constructor of the client and are no part of the request.
\<close>

definition processWithGoogleDocumentAI ::
  "ocr_env \<Rightarrow> (g_request \<Rightarrow> exn + g_response) \<Rightarrow> string \<Rightarrow> buffer \<Rightarrow> js \<Rightarrow> js \<Rightarrow>
     exn + OCRResult" where
  "processWithGoogleDocumentAI env processDocument now documentBuffer filename mimeType =
     (if unset (GOOGLE_CLOUD_PROJECT_ID env) \<or> unset (GOOGLE_CLOUD_LOCATION env) \<or>
         unset (GOOGLE_DOCUMENT_AI_PROCESSOR_ID env)
      then Inl (Error ''Missing Google Cloud configuration. Please set GOOGLE_CLOUD_PROJECT_ID, GOOGLE_CLOUD_LOCATION, and GOOGLE_DOCUMENT_AI_PROCESSOR_ID in your environment variables.'')
      else if unset (GOOGLE_SERVICE_ACCOUNT_EMAIL env) \<or> unset (GOOGLE_PRIVATE_KEY env)
      then Inl (Error ''Missing Google Cloud credentials. Please set GOOGLE_SERVICE_ACCOUNT_EMAIL and GOOGLE_PRIVATE_KEY in your environment variables.'')
      else
        (case processDocument
                \<lparr>request_name =
                    ''projects/'' @ str_or (GOOGLE_CLOUD_PROJECT_ID env) [] @
                    ''/locations/'' @ str_or (GOOGLE_CLOUD_LOCATION env) [] @
                    ''/processors/'' @ str_or (GOOGLE_DOCUMENT_AI_PROCESSOR_ID env) [],
                  request_content = documentBuffer,
                  request_mimeType = mimeType\<rparr> of
           Inl e \<Rightarrow> Inl e
         | Inr response \<Rightarrow>
             (case g_document response of
                None \<Rightarrow> Inl (Error ''No document returned from Document AI'')
              | Some document \<Rightarrow>
                  Inr \<lparr>meta = \<lparr>meta_filename = filename,
                               meta_pages = pageCount document,
                               meta_provider = ''google-document-ai'',
                               meta_processedAt = now\<rparr>,
                       ocr = map (google_page document) [0..<pageCount document]\<rparr>)))"

section \<open>The AWS Textract adapter\<close>

text \<open>The part of a Textract response that the adapter reads.\<close>

record a_relationship =
  rel_Type :: "string option"
  rel_Ids :: "string list option"

record a_boundingBox =
  bb_Left :: "real option"
  bb_Top :: "real option"
  bb_Width :: "real option"
  bb_Height :: "real option"

record a_geometry =
  geo_BoundingBox :: "a_boundingBox option"

record a_block =
  blk_Id :: "string option"
  blk_BlockType :: "string option"
  blk_Text :: "string option"
  blk_Confidence :: "real option"
  blk_Geometry :: "a_geometry option"
  blk_EntityTypes :: "string list option"
  blk_Relationships :: "a_relationship list option"

record a_response =
  Blocks :: "a_block list option"

text \<open>The block map (lines 296 to 301): a later block replaces an earlier one with its id.\<close>

definition set_block :: "(string \<rightharpoonup> a_block) \<Rightarrow> a_block \<Rightarrow> (string \<rightharpoonup> a_block)" where
  "set_block m block = (if unset (blk_Id block) then m else m(str_or (blk_Id block) [] \<mapsto> block))"

definition build_blockMap :: "a_block list \<Rightarrow> (string \<rightharpoonup> a_block)" where
  "build_blockMap bs = foldl set_block Map.empty bs"

text \<open>\<^verbatim>\<open>getTextFromRelationships\<close> (lines 397 to 417).\<close>

definition append_word :: "(string \<rightharpoonup> a_block) \<Rightarrow> string \<Rightarrow> string \<Rightarrow> string" where
  "append_word blockMap text ident =
     (case blockMap ident of
        None \<Rightarrow> text
      | Some relatedBlock \<Rightarrow>
          if blk_BlockType relatedBlock = Some ''WORD'' \<and> \<not> unset (blk_Text relatedBlock)
          then text @ str_or (blk_Text relatedBlock) [] @ '' ''
          else text)"

definition getTextFromRelationships ::
  "a_block \<Rightarrow> (string \<rightharpoonup> a_block) \<Rightarrow> string \<Rightarrow> string" where
  "getTextFromRelationships block blockMap relationshipType =
     trim (foldl (\<lambda>text relationship.
                    case rel_Ids relationship of
                      None \<Rightarrow> text
                    | Some ids \<Rightarrow>
                        if rel_Type relationship = Some relationshipType
                        then foldl (append_word blockMap) text ids
                        else text)
             []
             (case blk_Relationships block of None \<Rightarrow> [] | Some rs \<Rightarrow> rs))"

text \<open>\<^verbatim>\<open>getValueBlock\<close> (lines 419 to 440): the first value block found.\<close>

fun first_value :: "(string \<rightharpoonup> a_block) \<Rightarrow> string list \<Rightarrow> a_block option" where
  "first_value blockMap [] = None"
| "first_value blockMap (ident # ids) =
     (case blockMap ident of
        None \<Rightarrow> first_value blockMap ids
      | Some valueBlock \<Rightarrow>
          if blk_BlockType valueBlock = Some ''KEY_VALUE_SET'' \<and>
             (case blk_EntityTypes valueBlock of None \<Rightarrow> False | Some ts \<Rightarrow> ''VALUE'' \<in> set ts)
          then Some valueBlock
          else first_value blockMap ids)"

fun value_in :: "(string \<rightharpoonup> a_block) \<Rightarrow> a_relationship list \<Rightarrow> a_block option" where
  "value_in blockMap [] = None"
| "value_in blockMap (relationship # rs) =
     (case rel_Ids relationship of
        None \<Rightarrow> value_in blockMap rs
      | Some ids \<Rightarrow>
          if rel_Type relationship = Some ''VALUE''
          then (case first_value blockMap ids of
                  None \<Rightarrow> value_in blockMap rs
                | Some valueBlock \<Rightarrow> Some valueBlock)
          else value_in blockMap rs)"

definition getValueBlock :: "a_block \<Rightarrow> (string \<rightharpoonup> a_block) \<Rightarrow> a_block option" where
  "getValueBlock keyBlock blockMap =
     value_in blockMap (case blk_Relationships keyBlock of None \<Rightarrow> [] | Some rs \<Rightarrow> rs)"

text \<open>The first half of a round of the main loop (lines 305 to 324): a line of text.\<close>

definition push_line :: "page_acc \<Rightarrow> a_block \<Rightarrow> page_acc" where
  "push_line acc block =
     (if blk_BlockType block = Some ''LINE'' \<and> \<not> unset (blk_Text block)
      then
        let confidence =
              (case blk_Confidence block of
                 None \<Rightarrow> 0
               | Some c \<Rightarrow> if c = 0 then 0 else round64 (c / 100));
            geometry =
              (case blk_Geometry block of None \<Rightarrow> None | Some g \<Rightarrow> geo_BoundingBox g)
        in acc\<lparr>blocks := blocks acc @
                   [\<lparr>block_id =
                       str_or (blk_Id block) (''block-'' @ string_of_nat (length (blocks acc))),
                     block_text = str_or (blk_Text block) [],
                     block_confidence = confidence,
                     block_boundingBox =
                       \<lparr>box_x = num_or_zero (case geometry of None \<Rightarrow> None | Some b \<Rightarrow> bb_Left b),
                        box_y = num_or_zero (case geometry of None \<Rightarrow> None | Some b \<Rightarrow> bb_Top b),
                        box_width =
                          num_or_zero (case geometry of None \<Rightarrow> None | Some b \<Rightarrow> bb_Width b),
                        box_height =
                          num_or_zero (case geometry of None \<Rightarrow> None | Some b \<Rightarrow> bb_Height b)\<rparr>,
                     block_blockType = LINE\<rparr>],
                pageText := pageText acc @ str_or (blk_Text block) [] @ [CHR 0x0A],
                totalConfidence := js_add (totalConfidence acc) confidence,
                confidenceCount := confidenceCount acc + 1\<rparr>
      else acc)"

text \<open>The second half (lines 327 to 342): a key and its value, as an entity.\<close>

definition push_key_value :: "(string \<rightharpoonup> a_block) \<Rightarrow> page_acc \<Rightarrow> a_block \<Rightarrow> page_acc" where
  "push_key_value blockMap acc block =
     (if blk_BlockType block = Some ''KEY_VALUE_SET'' \<and>
         (case blk_EntityTypes block of None \<Rightarrow> False | Some ts \<Rightarrow> ''KEY'' \<in> set ts)
      then
        let keyText = getTextFromRelationships block blockMap ''CHILD'';
            valueText =
              (case getValueBlock block blockMap of
                 None \<Rightarrow> []
               | Some valueBlock \<Rightarrow> getTextFromRelationships valueBlock blockMap ''CHILD'')
        in if keyText = [] then acc
           else acc\<lparr>entities := entities acc @
                      [\<lparr>entity_type = ''KEY_VALUE'',
                        entity_text = keyText @ '': '' @ valueText,
                        entity_page = 1,
                        entity_confidence =
                          (case blk_Confidence block of
                             None \<Rightarrow> 0
                           | Some c \<Rightarrow> if c = 0 then 0 else round64 (c / 100)),
                        entity_mentionText = None\<rparr>]\<rparr>
      else acc)"

definition textract_step :: "(string \<rightharpoonup> a_block) \<Rightarrow> page_acc \<Rightarrow> a_block \<Rightarrow> page_acc" where
  "textract_step blockMap acc block = push_key_value blockMap (push_line acc block) block"

text \<open>
  \<^verbatim>\<open>processWithAWSTextract\<close> (lines 251 to 362). \<open>send\<close> is the call of the provider
  with the document bytes.
\<close>

definition processWithAWSTextract ::
  "(buffer \<Rightarrow> exn + a_response) \<Rightarrow> string \<Rightarrow> buffer \<Rightarrow> js \<Rightarrow> exn + OCRResult" where
  "processWithAWSTextract send now documentBuffer filename =
     (case send documentBuffer of
        Inl e \<Rightarrow> Inl e
      | Inr response \<Rightarrow>
          (case Blocks response of
             None \<Rightarrow> Inl (Error ''No blocks returned from Textract'')
           | Some bs \<Rightarrow>
               let acc = foldl (textract_step (build_blockMap bs)) empty_acc bs
               in Inr \<lparr>meta = \<lparr>meta_filename = filename,
                               meta_pages = 1,
                               meta_provider = ''aws-textract'',
                               meta_processedAt = now\<rparr>,
                       ocr = [\<lparr>page_page = 1,
                               page_text = trim (pageText acc),
                               page_blocks = blocks acc,
                               page_entities = entities acc,
                               page_confidence = acc_confidence acc\<rparr>]\<rparr>))"

section \<open>The OCR endpoint\<close>

text \<open>
  \<^verbatim>\<open>POST\<close> of ocr/route.ts (lines 46 to 96). \<open>Buffer_from\<close> is
  \<^verbatim>\<open>Buffer.from(document, 'base64')\<close>, \<open>None\<close> when it throws. The answer is the OCR
  Result, or a status with the \<^verbatim>\<open>error\<close> and the \<^verbatim>\<open>details\<close> of the body.
\<close>

datatype ocr_response =
    OcrJson OCRResult
  | OcrError nat string "string option"

definition OCR_PROVIDER :: "ocr_env \<Rightarrow> string" where
  "OCR_PROVIDER env = str_or (env_OCR_PROVIDER env) ''google''"

definition ocr_POST ::
  "ocr_env \<Rightarrow> (js \<Rightarrow> buffer option) \<Rightarrow> (g_request \<Rightarrow> exn + g_response) \<Rightarrow>
     (buffer \<Rightarrow> exn + a_response) \<Rightarrow> string \<Rightarrow> exn + js \<Rightarrow> ocr_response" where
  "ocr_POST env Buffer_from processDocument send now req =
     (case req of
        Inl e \<Rightarrow> OcrError 500 ''OCR processing failed'' (Some (message e))
      | Inr body \<Rightarrow>
          if nullish body
          then OcrError 500 ''OCR processing failed''
                 (Some ''Cannot destructure property document of body'')
          else
            let document = js_get body ''document'';
                filename = js_get body ''filename'';
                mimeType = js_get body ''mimeType''
            in
              if \<not> truthy document then OcrError 400 ''No document provided'' None
              else
                (case Buffer_from document of
                   None \<Rightarrow> OcrError 400 ''Invalid base64 document'' None
                 | Some documentBuffer \<Rightarrow>
                     (case (if OCR_PROVIDER env = ''aws''
                            then processWithAWSTextract send now documentBuffer
                                   (js_or filename (JStr ''document.pdf''))
                            else processWithGoogleDocumentAI env processDocument now
                                   documentBuffer
                                   (js_or filename (JStr ''document.pdf''))
                                   (js_or mimeType (JStr ''application/pdf''))) of
                        Inl e \<Rightarrow> OcrError 500 ''OCR processing failed'' (Some (message e))
                      | Inr result \<Rightarrow> OcrJson result)))"

section \<open>Concrete inputs\<close>

text \<open>Requests, configurations and provider answers at which the theorems are run.\<close>

definition example_ocr_result :: js where
  "example_ocr_result =
     JObj [(''meta'', JObj [(''filename'', JStr ''a.pdf''), (''pages'', JNum (Fin 1))]),
           (''ocr'', JArr [])]"

definition example_page :: js where
  "example_page =
     JObj [(''page'', JNum (Fin 1)), (''text'', JStr ''t''),
           (''blocks'', JArr (replicate 51 (JStr ''b''))),
           (''entities'', JArr (replicate 60 (JStr ''e''))),
           (''confidence'', JNum (Fin 0.9))]"

definition example_body :: js where
  "example_body =
     JObj [(''ocr_result'',
            JObj [(''meta'', JObj [(''filename'', JStr ''a.pdf'')]),
                  (''ocr'', JArr [example_page])])]"

definition no_credential :: summarize_env where
  "no_credential = \<lparr>SKIP_LLM = None, GEMINI_API_KEY = None\<rparr>"

definition with_credential :: summarize_env where
  "with_credential = \<lparr>SKIP_LLM = None, GEMINI_API_KEY = Some ''k''\<rparr>"

definition skip_flag :: summarize_env where
  "skip_flag = \<lparr>SKIP_LLM = Some ''true'', GEMINI_API_KEY = Some ''k''\<rparr>"

definition no_parse :: "string \<Rightarrow> js option" where
  "no_parse s = None"

definition silent_backend :: "js \<Rightarrow> exn + string" where
  "silent_backend i = Inr []"

definition unconfigured :: ocr_env where
  "unconfigured =
     \<lparr>env_OCR_PROVIDER = None, GOOGLE_CLOUD_PROJECT_ID = None, GOOGLE_CLOUD_LOCATION = None,
      GOOGLE_DOCUMENT_AI_PROCESSOR_ID = None, GOOGLE_SERVICE_ACCOUNT_EMAIL = None,
      GOOGLE_PRIVATE_KEY = None\<rparr>"

definition configured :: "string option \<Rightarrow> ocr_env" where
  "configured provider =
     \<lparr>env_OCR_PROVIDER = provider, GOOGLE_CLOUD_PROJECT_ID = Some ''p'',
      GOOGLE_CLOUD_LOCATION = Some ''us'', GOOGLE_DOCUMENT_AI_PROCESSOR_ID = Some ''x'',
      GOOGLE_SERVICE_ACCOUNT_EMAIL = Some ''e'', GOOGLE_PRIVATE_KEY = Some ''k''\<rparr>"

definition decode_any :: "js \<Rightarrow> buffer option" where
  "decode_any d = Some [37, 80, 68, 70]"

definition document_body :: js where
  "document_body = JObj [(''document'', JStr ''JVBERg==''), (''filename'', JStr ''a.pdf'')]"

definition no_google :: "g_request \<Rightarrow> exn + g_response" where
  "no_google r = Inl (Error ''unreachable'')"

definition no_textract :: "buffer \<Rightarrow> exn + a_response" where
  "no_textract b = Inl (Error ''unreachable'')"

section \<open>Predicates and inputs for the OCR adapters\<close>

text \<open>A list of blocks or lines from which the adapter extracts nothing.\<close>

definition items_absent :: "g_item list option \<Rightarrow> bool" where
  "items_absent items = (case items of None \<Rightarrow> True | Some xs \<Rightarrow> \<forall>item\<in>set xs. layout item = None)"

text \<open>A Document AI document with nothing to extract: no block and no line with a layout.\<close>

definition g_no_content :: "g_document \<Rightarrow> bool" where
  "g_no_content document =
     (case g_pages document of
        None \<Rightarrow> True
      | Some ps \<Rightarrow> \<forall>p\<in>set ps. items_absent (g_blocks p) \<and> items_absent (g_lines p))"

text \<open>A Textract block that the adapter turns into a block of the page.\<close>

definition is_text_line :: "a_block \<Rightarrow> bool" where
  "is_text_line block \<longleftrightarrow> blk_BlockType block = Some ''LINE'' \<and> \<not> unset (blk_Text block)"

definition a_no_content :: "a_block list \<Rightarrow> bool" where
  "a_no_content bs \<longleftrightarrow> (\<forall>block\<in>set bs. \<not> is_text_line block)"

text \<open>The sum of a list of numbers as the loops compute it: from the left, in binary64.\<close>

definition running_sum :: "real list \<Rightarrow> real option" where
  "running_sum cs = foldl js_add (Some 0) cs"

text \<open>The invariant of the loops: the running sum and count are those of the blocks so far.\<close>

definition acc_ok :: "page_acc \<Rightarrow> bool" where
  "acc_ok acc \<longleftrightarrow>
     totalConfidence acc = running_sum (map block_confidence (blocks acc)) \<and>
     confidenceCount acc = length (blocks acc)"

text \<open>All five Google settings are present.\<close>

definition google_configured :: "ocr_env \<Rightarrow> bool" where
  "google_configured env \<longleftrightarrow>
     \<not> unset (GOOGLE_CLOUD_PROJECT_ID env) \<and> \<not> unset (GOOGLE_CLOUD_LOCATION env) \<and>
     \<not> unset (GOOGLE_DOCUMENT_AI_PROCESSOR_ID env) \<and>
     \<not> unset (GOOGLE_SERVICE_ACCOUNT_EMAIL env) \<and> \<not> unset (GOOGLE_PRIVATE_KEY env)"

text \<open>Provider answers, and polygons.\<close>

definition empty_document :: "g_request \<Rightarrow> exn + g_response" where
  "empty_document r =
     Inr \<lparr>g_document = Some \<lparr>g_text = None, g_pages = Some [], g_entities = None\<rparr>\<rparr>"

definition empty_blocks :: "buffer \<Rightarrow> exn + a_response" where
  "empty_blocks b = Inr \<lparr>Blocks = Some []\<rparr>"

definition page_only :: "buffer \<Rightarrow> exn + a_response" where
  "page_only b =
     Inr \<lparr>Blocks = Some [\<lparr>blk_Id = Some ''p1'', blk_BlockType = Some ''PAGE'', blk_Text = None,
                           blk_Confidence = None, blk_Geometry = None, blk_EntityTypes = None,
                           blk_Relationships = None\<rparr>]\<rparr>"

definition no_document :: "g_request \<Rightarrow> exn + g_response" where
  "no_document r = Inr \<lparr>g_document = None\<rparr>"

definition no_blocks :: "buffer \<Rightarrow> exn + a_response" where
  "no_blocks b = Inr \<lparr>Blocks = None\<rparr>"

definition text_line :: "string \<Rightarrow> real \<Rightarrow> a_block" where
  "text_line t c =
     \<lparr>blk_Id = None, blk_BlockType = Some ''LINE'', blk_Text = Some t, blk_Confidence = Some c,
      blk_Geometry = None, blk_EntityTypes = None, blk_Relationships = None\<rparr>"

definition three_lines :: "buffer \<Rightarrow> exn + a_response" where
  "three_lines b = Inr \<lparr>Blocks = Some [text_line ''a'' 90, text_line ''b'' 80, text_line ''c'' 70]\<rparr>"

text \<open>
  The answer of the Textract adapter to \<open>three_lines\<close>, with the confidences as the
  source computes them: 90 / 100, 80 / 100 and 70 / 100 are the doubles nearest to 0.9,
  0.8 and 0.7, and the page confidence is 0.8000000000000002, the double after the one
  nearest to 0.8.
\<close>

definition line_block :: "string \<Rightarrow> string \<Rightarrow> real \<Rightarrow> OCRBlock" where
  "line_block ident t c =
     \<lparr>block_id = ident, block_text = t, block_confidence = c,
      block_boundingBox = \<lparr>box_x = 0, box_y = 0, box_width = 0, box_height = 0\<rparr>,
      block_blockType = LINE\<rparr>"

definition three_lines_page :: OCRPageResult where
  "three_lines_page =
     \<lparr>page_page = 1,
      page_text = [CHR ''a'', CHR 0x0A, CHR ''b'', CHR 0x0A, CHR ''c''],
      page_blocks = [line_block ''block-0'' ''a'' (8106479329266893 / 2 ^ 53),
                     line_block ''block-1'' ''b'' (7205759403792794 / 2 ^ 53),
                     line_block ''block-2'' ''c'' (6305039478318694 / 2 ^ 53)],
      page_entities = [],
      page_confidence = Some (7205759403792795 / 2 ^ 53)\<rparr>"

definition three_lines_result :: OCRResult where
  "three_lines_result =
     \<lparr>meta = \<lparr>meta_filename = JStr ''a.pdf'', meta_pages = 1, meta_provider = ''aws-textract'',
               meta_processedAt = ''2024-01-01T00:00:00.000Z''\<rparr>,
      ocr = [three_lines_page]\<rparr>"




section \<open>Properties of the Normalizer\<close>

lemma js_or_truthy: "truthy b \<Longrightarrow> truthy (js_or a b)"
  by (simp add: js_or_def)

lemma js_or_idem: "js_or (js_or a b) b = js_or a b"
  by (simp add: js_or_def)

lemma array_or_empty_isArray: "isArray (array_or_empty v)"
  by (simp add: array_or_empty_def)

lemma array_or_empty_idem: "array_or_empty (array_or_empty v) = array_or_empty v"
  by (simp add: array_or_empty_def)

lemma clamp_range: "\<exists>x. Math_min (Fin 1) (Math_max (Fin 0) n) = Fin x \<and> 0 \<le> x \<and> x \<le> 1"
  by (cases n) (simp_all add: Math_min_def Math_max_def)

lemma clamp_confidence_unit: "in_unit_interval (clamp_confidence v)"
proof (cases v)
  case (JNum n)
  obtain x where "Math_min (Fin 1) (Math_max (Fin 0) n) = Fin x" "0 \<le> x" "x \<le> 1"
    using clamp_range by blast
  with JNum show ?thesis by (simp add: clamp_confidence_def)
qed (simp_all add: clamp_confidence_def)

lemma clamp_confidence_idem: "clamp_confidence (clamp_confidence v) = clamp_confidence v"
proof (cases v)
  case (JNum n)
  then show ?thesis
    by (cases n) (simp_all add: clamp_confidence_def Math_min_def Math_max_def)
qed (simp_all add: clamp_confidence_def Math_min_def Math_max_def)

lemma lookup_normalized:
  "lookup (validateAndNormalizeSummary c) ''short_summary'' =
     js_or (lookup c ''short_summary'')
       (JStr ''Unable to generate summary - document analysis incomplete'')"
  "lookup (validateAndNormalizeSummary c) ''parties'' = array_or_empty (lookup c ''parties'')"
  "lookup (validateAndNormalizeSummary c) ''important_dates'' =
     array_or_empty (lookup c ''important_dates'')"
  "lookup (validateAndNormalizeSummary c) ''obligations'' =
     array_or_empty (lookup c ''obligations'')"
  "lookup (validateAndNormalizeSummary c) ''payment_terms'' =
     js_or (lookup c ''payment_terms'') JNull"
  "lookup (validateAndNormalizeSummary c) ''termination_clauses'' =
     js_or (lookup c ''termination_clauses'') JNull"
  "lookup (validateAndNormalizeSummary c) ''governing_law'' =
     js_or (lookup c ''governing_law'') JNull"
  "lookup (validateAndNormalizeSummary c) ''risk_flags'' =
     array_or_empty (lookup c ''risk_flags'')"
  "lookup (validateAndNormalizeSummary c) ''suggested_redactions'' =
     array_or_empty (lookup c ''suggested_redactions'')"
  "lookup (validateAndNormalizeSummary c) ''confidence_score'' =
     clamp_confidence (lookup c ''confidence_score'')"
  by (simp_all add: validateAndNormalizeSummary_def lookup_def)

text \<open>
  C2. The Normalizer is idempotent: normalizing the result of a normalization gives that
  result again, for every candidate object.
\<close>

theorem normalizer_idempotent:
  "validateAndNormalizeSummary (validateAndNormalizeSummary c) = validateAndNormalizeSummary c"
proof -
  let ?r = "validateAndNormalizeSummary c"
  show ?thesis
    unfolding validateAndNormalizeSummary_def [of ?r] lookup_normalized
    by (simp add: validateAndNormalizeSummary_def js_or_idem array_or_empty_idem
        clamp_confidence_idem)
qed

lemma nonempty_string_js_or:
  "nonempty_string (js_or v (JStr (d # ds))) \<longleftrightarrow> string_or_falsy v"
  by (cases v) (simp_all add: js_or_def)

lemma string_or_null_js_or:
  "string_or_null (js_or v JNull) \<longleftrightarrow> string_or_falsy v"
  by (cases v) (simp_all add: js_or_def)

text \<open>
  C1, as stated: for every candidate object the result of the Normalizer satisfies the
  invariant of a Summary Result (\<open>short_summary\<close> a non-empty string, the five array
  fields arrays, the three optional texts a non-empty string or \<^verbatim>\<open>null\<close>, the
  confidence in the unit interval). It fails at a candidate whose \<open>short_summary\<close>
  is the number 42: \<^verbatim>\<open>42 || '...'\<close> is 42.
\<close>

theorem normalizer_invariant_counterexample:
  "\<not> summary_invariant (validateAndNormalizeSummary [(''short_summary'', JNum (Fin 42))])"
  unfolding summary_invariant_def lookup_normalized
  by (simp add: lookup_def js_or_def)

text \<open>
  C1, amended: for every candidate object each of the four text fields of the result
  is the candidate's value, unchanged, when that is truthy, and otherwise the placeholder
  (for \<open>short_summary\<close>) or \<^verbatim>\<open>null\<close> (for the three optional texts); each of the five
  array fields is an array (the candidate's when that is an array, the empty one
  otherwise); the confidence lies in the unit interval; \<open>short_summary\<close> is truthy and
  each of the three optional texts is \<^verbatim>\<open>null\<close> or truthy, so never the empty string;
  the whole invariant (with its string types) holds exactly when each of the four text
  fields of the candidate is a string or falsy.
\<close>

theorem normalizer_invariant_amended:
  "lookup (validateAndNormalizeSummary c) ''short_summary'' =
     (if truthy (lookup c ''short_summary'') then lookup c ''short_summary''
      else JStr ''Unable to generate summary - document analysis incomplete'') \<and>
   lookup (validateAndNormalizeSummary c) ''payment_terms'' =
     (if truthy (lookup c ''payment_terms'') then lookup c ''payment_terms'' else JNull) \<and>
   lookup (validateAndNormalizeSummary c) ''termination_clauses'' =
     (if truthy (lookup c ''termination_clauses'') then lookup c ''termination_clauses''
      else JNull) \<and>
   lookup (validateAndNormalizeSummary c) ''governing_law'' =
     (if truthy (lookup c ''governing_law'') then lookup c ''governing_law'' else JNull) \<and>
   lookup (validateAndNormalizeSummary c) ''parties'' =
     (if isArray (lookup c ''parties'') then lookup c ''parties'' else JArr []) \<and>
   lookup (validateAndNormalizeSummary c) ''important_dates'' =
     (if isArray (lookup c ''important_dates'') then lookup c ''important_dates'' else JArr []) \<and>
   lookup (validateAndNormalizeSummary c) ''obligations'' =
     (if isArray (lookup c ''obligations'') then lookup c ''obligations'' else JArr []) \<and>
   lookup (validateAndNormalizeSummary c) ''risk_flags'' =
     (if isArray (lookup c ''risk_flags'') then lookup c ''risk_flags'' else JArr []) \<and>
   lookup (validateAndNormalizeSummary c) ''suggested_redactions'' =
     (if isArray (lookup c ''suggested_redactions'') then lookup c ''suggested_redactions''
      else JArr []) \<and>
   isArray (lookup (validateAndNormalizeSummary c) ''parties'') \<and>
   isArray (lookup (validateAndNormalizeSummary c) ''important_dates'') \<and>
   isArray (lookup (validateAndNormalizeSummary c) ''obligations'') \<and>
   isArray (lookup (validateAndNormalizeSummary c) ''risk_flags'') \<and>
   isArray (lookup (validateAndNormalizeSummary c) ''suggested_redactions'') \<and>
   in_unit_interval (lookup (validateAndNormalizeSummary c) ''confidence_score'') \<and>
   truthy (lookup (validateAndNormalizeSummary c) ''short_summary'') \<and>
   (lookup (validateAndNormalizeSummary c) ''payment_terms'' = JNull \<or>
    truthy (lookup (validateAndNormalizeSummary c) ''payment_terms'')) \<and>
   (lookup (validateAndNormalizeSummary c) ''termination_clauses'' = JNull \<or>
    truthy (lookup (validateAndNormalizeSummary c) ''termination_clauses'')) \<and>
   (lookup (validateAndNormalizeSummary c) ''governing_law'' = JNull \<or>
    truthy (lookup (validateAndNormalizeSummary c) ''governing_law'')) \<and>
   (summary_invariant (validateAndNormalizeSummary c) \<longleftrightarrow>
      string_or_falsy (lookup c ''short_summary'') \<and>
      string_or_falsy (lookup c ''payment_terms'') \<and>
      string_or_falsy (lookup c ''termination_clauses'') \<and>
      string_or_falsy (lookup c ''governing_law''))"
proof -
  have arrays: "array_or_empty v = (if isArray v then v else JArr [])" for v
    by (simp add: array_or_empty_def)
  have nullable: "js_or v JNull = JNull \<or> truthy (js_or v JNull)" for v
    by (simp add: js_or_def)
  have kept: "js_or v d = (if truthy v then v else d)" for v d
    by (simp add: js_or_def)
  have texts:
    "js_or (lookup c ''short_summary'')
       (JStr ''Unable to generate summary - document analysis incomplete'') =
     (if truthy (lookup c ''short_summary'') then lookup c ''short_summary''
      else JStr ''Unable to generate summary - document analysis incomplete'')"
    "js_or (lookup c ''payment_terms'') JNull =
     (if truthy (lookup c ''payment_terms'') then lookup c ''payment_terms'' else JNull)"
    "js_or (lookup c ''termination_clauses'') JNull =
     (if truthy (lookup c ''termination_clauses'') then lookup c ''termination_clauses''
      else JNull)"
    "js_or (lookup c ''governing_law'') JNull =
     (if truthy (lookup c ''governing_law'') then lookup c ''governing_law'' else JNull)"
    by (rule kept)+
  have rest:
    "array_or_empty (lookup c ''parties'') =
       (if isArray (lookup c ''parties'') then lookup c ''parties'' else JArr []) \<and>
     array_or_empty (lookup c ''important_dates'') =
       (if isArray (lookup c ''important_dates'') then lookup c ''important_dates''
        else JArr []) \<and>
     array_or_empty (lookup c ''obligations'') =
       (if isArray (lookup c ''obligations'') then lookup c ''obligations'' else JArr []) \<and>
     array_or_empty (lookup c ''risk_flags'') =
       (if isArray (lookup c ''risk_flags'') then lookup c ''risk_flags'' else JArr []) \<and>
     array_or_empty (lookup c ''suggested_redactions'') =
       (if isArray (lookup c ''suggested_redactions'') then lookup c ''suggested_redactions''
        else JArr []) \<and>
     isArray (array_or_empty (lookup c ''parties'')) \<and>
     isArray (array_or_empty (lookup c ''important_dates'')) \<and>
     isArray (array_or_empty (lookup c ''obligations'')) \<and>
     isArray (array_or_empty (lookup c ''risk_flags'')) \<and>
     isArray (array_or_empty (lookup c ''suggested_redactions'')) \<and>
     in_unit_interval (clamp_confidence (lookup c ''confidence_score'')) \<and>
     truthy (js_or (lookup c ''short_summary'')
               (JStr ''Unable to generate summary - document analysis incomplete'')) \<and>
     (js_or (lookup c ''payment_terms'') JNull = JNull \<or>
      truthy (js_or (lookup c ''payment_terms'') JNull)) \<and>
     (js_or (lookup c ''termination_clauses'') JNull = JNull \<or>
      truthy (js_or (lookup c ''termination_clauses'') JNull)) \<and>
     (js_or (lookup c ''governing_law'') JNull = JNull \<or>
      truthy (js_or (lookup c ''governing_law'') JNull)) \<and>
     ((nonempty_string
         (js_or (lookup c ''short_summary'')
            (JStr ''Unable to generate summary - document analysis incomplete'')) \<and>
       isArray (array_or_empty (lookup c ''parties'')) \<and>
       isArray (array_or_empty (lookup c ''important_dates'')) \<and>
       isArray (array_or_empty (lookup c ''obligations'')) \<and>
       isArray (array_or_empty (lookup c ''risk_flags'')) \<and>
       isArray (array_or_empty (lookup c ''suggested_redactions'')) \<and>
       string_or_null (js_or (lookup c ''payment_terms'') JNull) \<and>
       string_or_null (js_or (lookup c ''termination_clauses'') JNull) \<and>
       string_or_null (js_or (lookup c ''governing_law'') JNull) \<and>
       in_unit_interval (clamp_confidence (lookup c ''confidence_score''))) \<longleftrightarrow>
      string_or_falsy (lookup c ''short_summary'') \<and>
      string_or_falsy (lookup c ''payment_terms'') \<and>
      string_or_falsy (lookup c ''termination_clauses'') \<and>
      string_or_falsy (lookup c ''governing_law''))"
    using nullable
    by (simp add: array_or_empty_isArray clamp_confidence_unit js_or_truthy
        nonempty_string_js_or string_or_null_js_or arrays)
  show ?thesis
    unfolding summary_invariant_def lookup_normalized
    using texts rest by (intro conjI) (elim conjE, assumption)+
qed

theorem normalizer_invariant_amended_witness:
  "string_or_falsy (lookup [(''parties'', JNum (Fin 3)), (''governing_law'', JStr [])]
     ''governing_law'') \<and>
   summary_invariant
     (validateAndNormalizeSummary [(''parties'', JNum (Fin 3)), (''governing_law'', JStr [])])"
  using normalizer_invariant_amended
          [of "[(''parties'', JNum (Fin 3)), (''governing_law'', JStr [])]"]
  by (simp add: lookup_def)

text \<open>
  C3. A \<open>confidence_score\<close> that is a number is clamped into the unit interval, anything
  else gives 0.5; 1.5 gives 1, -0.5 gives 0, 0.75 stays, and the empty candidate gives
  0.5.
\<close>

theorem confidence_score_clamped:
  "lookup (validateAndNormalizeSummary c) ''confidence_score'' =
     (case lookup c ''confidence_score'' of
        JNum (Fin x) \<Rightarrow> JNum (Fin (if x < 0 then 0 else if 1 < x then 1 else x))
      | JNum PosInf \<Rightarrow> JNum (Fin 1)
      | JNum NegInf \<Rightarrow> JNum (Fin 0)
      | _ \<Rightarrow> JNum (Fin 0.5)) \<and>
   in_unit_interval (lookup (validateAndNormalizeSummary c) ''confidence_score'') \<and>
   lookup (validateAndNormalizeSummary [(''confidence_score'', JNum (Fin 1.5))])
     ''confidence_score'' = JNum (Fin 1) \<and>
   lookup (validateAndNormalizeSummary [(''confidence_score'', JNum (Fin (- 0.5)))])
     ''confidence_score'' = JNum (Fin 0) \<and>
   lookup (validateAndNormalizeSummary [(''confidence_score'', JNum (Fin 0.75))])
     ''confidence_score'' = JNum (Fin 0.75) \<and>
   lookup (validateAndNormalizeSummary []) ''confidence_score'' = JNum (Fin 0.5)"
proof -
  have general: "clamp_confidence v =
     (case v of
        JNum (Fin x) \<Rightarrow> JNum (Fin (if x < 0 then 0 else if 1 < x then 1 else x))
      | JNum PosInf \<Rightarrow> JNum (Fin 1)
      | JNum NegInf \<Rightarrow> JNum (Fin 0)
      | _ \<Rightarrow> JNum (Fin 0.5))" for v
    by (simp add: clamp_confidence_def Math_min_def Math_max_def split: js.splits jsnum.splits)
  have ex: "clamp_confidence (JNum (Fin 1.5)) = JNum (Fin 1)"
    "clamp_confidence (JNum (Fin (- 0.5))) = JNum (Fin 0)"
    "clamp_confidence (JNum (Fin 0.75)) = JNum (Fin 0.75)"
    "clamp_confidence JUndefined = JNum (Fin 0.5)"
    by (simp_all add: clamp_confidence_def Math_min_def Math_max_def)
  have look: "lookup [(''confidence_score'', v)] ''confidence_score'' = v"
    "lookup [] ''confidence_score'' = JUndefined" for v
    by (simp_all add: lookup_def)
  show ?thesis
    unfolding lookup_normalized look
    using general [of "lookup c ''confidence_score''"] ex
      clamp_confidence_unit [of "lookup c ''confidence_score''"]
    by simp
qed

section \<open>Properties of the summarize endpoint\<close>

lemma truthy_js_get: "truthy (js_get v k) \<Longrightarrow> truthy v \<and> \<not> nullish v"
  by (cases v) simp_all

lemma isArray_js_get: "isArray (js_get v k) \<Longrightarrow> \<not> nullish v"
  by (cases v) simp_all

lemma isArray_E: "isArray v \<Longrightarrow> \<exists>xs. v = JArr xs"
  by (cases v) simp_all

lemma input_page_blocks:
  assumes "js_get p ''blocks'' = JArr bs"
  shows "input_page p =
     Inr (JObj [(''page'', js_get p ''page''), (''text'', js_get p ''text''),
                (''blocks'', JArr (take 50 bs)), (''entities'', js_get p ''entities'')])"
proof -
  have "\<not> nullish p" using assms isArray_js_get [of p "''blocks''"] by simp
  then show ?thesis using assms by (simp add: input_page_def)
qed

lemma map_input_page_ok:
  assumes "\<forall>p\<in>set pages. isArray (js_get p ''blocks'')"
  shows "\<exists>sent. map_input_page pages = Inr sent \<and> length sent = length pages \<and>
           (\<forall>i<length pages. \<exists>bs. js_get (pages ! i) ''blocks'' = JArr bs \<and>
              js_get (sent ! i) ''blocks'' = JArr (take 50 bs) \<and>
              js_get (sent ! i) ''entities'' = js_get (pages ! i) ''entities'')"
  using assms
proof (induction pages)
  case Nil
  then show ?case by simp
next
  case (Cons p pages)
  then obtain sent where sent: "map_input_page pages = Inr sent" "length sent = length pages"
    "\<forall>i<length pages. \<exists>bs. js_get (pages ! i) ''blocks'' = JArr bs \<and>
              js_get (sent ! i) ''blocks'' = JArr (take 50 bs) \<and>
              js_get (sent ! i) ''entities'' = js_get (pages ! i) ''entities''"
    by auto
  from Cons.prems obtain bs where bs: "js_get p ''blocks'' = JArr bs"
    using isArray_E by auto
  let ?q = "JObj [(''page'', js_get p ''page''), (''text'', js_get p ''text''),
                (''blocks'', JArr (take 50 bs)), (''entities'', js_get p ''entities'')]"
  have q: "js_get ?q ''blocks'' = JArr (take 50 bs)" "js_get ?q ''entities'' = js_get p ''entities''"
    by (simp_all add: lookup_def)
  have m: "map_input_page (p # pages) = Inr (?q # sent)"
    using input_page_blocks [OF bs] sent(1) by simp
  have "\<forall>i<length (p # pages). \<exists>bs. js_get ((p # pages) ! i) ''blocks'' = JArr bs \<and>
              js_get ((?q # sent) ! i) ''blocks'' = JArr (take 50 bs) \<and>
              js_get ((?q # sent) ! i) ''entities'' = js_get ((p # pages) ! i) ''entities''"
  proof (intro allI impI)
    fix i assume i: "i < length (p # pages)"
    show "\<exists>bs. js_get ((p # pages) ! i) ''blocks'' = JArr bs \<and>
              js_get ((?q # sent) ! i) ''blocks'' = JArr (take 50 bs) \<and>
              js_get ((?q # sent) ! i) ''entities'' = js_get ((p # pages) ! i) ''entities''"
    proof (cases i)
      case 0
      then show ?thesis using bs q by simp
    next
      case (Suc j)
      then have "j < length pages" using i by simp
      then show ?thesis using sent(3) Suc by simp
    qed
  qed
  with m sent(2) show ?case by simp
qed

lemma backend_payloads_append_error [simp]:
  "backend_payloads (fx @ [ConsoleError a b]) = backend_payloads fx"
  by (induction fx rule: backend_payloads.induct) simp_all

lemma call_backend_payloads:
  "backend_payloads (snd (call_backend JSON_parse generateContent input)) = [input]"
  by (simp add: call_backend_def split: sum.splits option.splits)

lemma POST_payloads:
  "backend_payloads (snd (summarize_POST env JSON_parse generateContent req)) =
   backend_payloads (snd (summarize_POST_try env JSON_parse generateContent req))"
  by (simp add: summarize_POST_def split: prod.splits sum.splits)

lemma POST_try_reaches_backend:
  assumes "SKIP_LLM env \<noteq> Some ''true''" and "\<not> unset (GEMINI_API_KEY env)"
    and "truthy (js_get (js_get body ''ocr_result'') ''meta'')"
    and "truthy (js_get (js_get body ''ocr_result'') ''ocr'')"
    and "gemini_input (js_get body ''ocr_result'') (js_get body ''user_instructions'') = Inr input"
  shows "summarize_POST_try env JSON_parse generateContent (Inr body) =
           call_backend JSON_parse generateContent input"
proof -
  from assms(3) have a: "truthy (js_get body ''ocr_result'')"
    using truthy_js_get by blast
  then have b: "\<not> nullish body"
    using truthy_js_get by blast
  show ?thesis
    using assms a b
    by (simp add: summarize_POST_try_def Let_def unset_def split: option.splits)
qed


lemma POST_skip:
  assumes "SKIP_LLM env = Some ''true''" and "\<not> nullish body"
  shows "summarize_POST env JSON_parse generateContent (Inr body) =
     (if truthy (js_get body ''ocr_result'')
      then (NextResponse_json (JObj getMockSummary), [])
      else (NextResponse_json_status (JObj [(''error'', JStr ''No OCR result provided'')]) 400,
            []))"
  using assms by (simp add: summarize_POST_def summarize_POST_try_def Let_def)

lemma POST_no_key:
  assumes "SKIP_LLM env \<noteq> Some ''true''" and "unset (GEMINI_API_KEY env)"
    and "truthy (js_get (js_get body ''ocr_result'') ''meta'')"
    and "truthy (js_get (js_get body ''ocr_result'') ''ocr'')"
  shows "summarize_POST env JSON_parse generateContent (Inr body) =
     (NextResponse_json (JObj getMockSummary),
      [ConsoleWarn ''GEMINI_API_KEY not set - using mock response''])"
proof -
  from assms(3) have a: "truthy (js_get body ''ocr_result'')"
    using truthy_js_get by blast
  then have b: "\<not> nullish body"
    using truthy_js_get by blast
  show ?thesis
    using assms a b
    by (simp add: summarize_POST_def summarize_POST_try_def Let_def unset_def
        split: option.splits)
qed

lemma mock_fixed: "validateAndNormalizeSummary getMockSummary = getMockSummary"
  by (simp add: validateAndNormalizeSummary_def getMockSummary_def lookup_def js_or_def
      array_or_empty_def clamp_confidence_def Math_min_def Math_max_def)

lemma mock_invariant: "summary_invariant getMockSummary"
  by (simp add: summary_invariant_def getMockSummary_def lookup_def)

lemma mock_fields:
  "lookup getMockSummary ''confidence_score'' = JNum (Fin 0.95)"
  "\<exists>p ps. lookup getMockSummary ''parties'' = JArr (p # ps)"
  by (simp_all add: getMockSummary_def lookup_def)

text \<open>
  C6. With the skip flag set or the credential absent, summarizing a request whose OCR
  result has its \<open>meta\<close> and \<open>ocr\<close> fields answers with the mock Summary Result and makes
  no backend call; the mock has confidence 0.95 and a non-empty list of parties,
  satisfies the invariant of a Summary Result, and the Normalizer leaves it unchanged.
\<close>

theorem mock_mode:
  assumes "SKIP_LLM env = Some ''true'' \<or> unset (GEMINI_API_KEY env)"
    and "truthy (js_get (js_get body ''ocr_result'') ''meta'')"
    and "truthy (js_get (js_get body ''ocr_result'') ''ocr'')"
  shows "fst (summarize_POST env JSON_parse generateContent (Inr body)) =
           \<lparr>resp_status = 200, resp_body = JObj getMockSummary\<rparr> \<and>
         backend_payloads (snd (summarize_POST env JSON_parse generateContent (Inr body))) = [] \<and>
         lookup getMockSummary ''confidence_score'' = JNum (Fin 0.95) \<and>
         (\<exists>p ps. lookup getMockSummary ''parties'' = JArr (p # ps)) \<and>
         summary_invariant getMockSummary \<and>
         validateAndNormalizeSummary getMockSummary = getMockSummary"
proof -
  from assms(2) have a: "truthy (js_get body ''ocr_result'')"
    using truthy_js_get by blast
  then have b: "\<not> nullish body"
    using truthy_js_get by blast
  have "summarize_POST env JSON_parse generateContent (Inr body) =
          (NextResponse_json (JObj getMockSummary), []) \<or>
        summarize_POST env JSON_parse generateContent (Inr body) =
          (NextResponse_json (JObj getMockSummary),
           [ConsoleWarn ''GEMINI_API_KEY not set - using mock response''])"
  proof (cases "SKIP_LLM env = Some ''true''")
    case True
    then show ?thesis using POST_skip [OF True b] a by simp
  next
    case False
    with assms(1) have "unset (GEMINI_API_KEY env)" by simp
    then show ?thesis using POST_no_key [OF False _ assms(2,3)] by simp
  qed
  then have "fst (summarize_POST env JSON_parse generateContent (Inr body)) =
           \<lparr>resp_status = 200, resp_body = JObj getMockSummary\<rparr> \<and>
         backend_payloads (snd (summarize_POST env JSON_parse generateContent (Inr body))) = []"
    by (auto simp add: NextResponse_json_def)
  then show ?thesis
    using mock_fields mock_invariant mock_fixed by simp
qed

theorem mock_mode_witness:
  "(SKIP_LLM no_credential = Some ''true'' \<or> unset (GEMINI_API_KEY no_credential)) \<and>
   truthy (js_get (js_get (JObj [(''ocr_result'', example_ocr_result)]) ''ocr_result'') ''meta'') \<and>
   truthy (js_get (js_get (JObj [(''ocr_result'', example_ocr_result)]) ''ocr_result'') ''ocr'') \<and>
   fst (summarize_POST no_credential no_parse silent_backend
         (Inr (JObj [(''ocr_result'', example_ocr_result)]))) =
     \<lparr>resp_status = 200, resp_body = JObj getMockSummary\<rparr> \<and>
   backend_payloads
     (snd (summarize_POST no_credential no_parse silent_backend
             (Inr (JObj [(''ocr_result'', example_ocr_result)])))) = []"
  using mock_mode [of no_credential "JObj [(''ocr_result'', example_ocr_result)]"
      no_parse silent_backend]
  by (simp add: unset_def example_ocr_result_def lookup_def no_credential_def)

text \<open>
  C8. When the handler calls the backend for an OCR result whose pages each have an
  array of blocks, the payload holds one page per page of the OCR result; the blocks
  of a sent page are the first 50 blocks of the page (at most 50, exactly 50 when the
  page has more, all of them when the page has at most 50), and its entities are the
  entities of the page, whole.
\<close>

theorem blocks_capped_entities_whole:
  assumes "SKIP_LLM env \<noteq> Some ''true''" and "\<not> unset (GEMINI_API_KEY env)"
    and "truthy (js_get (js_get body ''ocr_result'') ''meta'')"
    and "js_get (js_get body ''ocr_result'') ''ocr'' = JArr pages"
    and "\<forall>p\<in>set pages. isArray (js_get p ''blocks'')"
  shows "\<exists>sent.
     backend_payloads (snd (summarize_POST env JSON_parse generateContent (Inr body))) =
       [JObj [(''meta'', js_get (js_get body ''ocr_result'') ''meta''),
              (''ocr'', JArr sent),
              (''user_instructions'',
                 js_or (js_get body ''user_instructions'')
                   (JStr ''Analyze this legal document thoroughly''))]] \<and>
     length sent = length pages \<and>
     (\<forall>i<length pages. \<exists>bs.
        js_get (pages ! i) ''blocks'' = JArr bs \<and>
        js_get (sent ! i) ''blocks'' = JArr (take 50 bs) \<and>
        length (take 50 bs) \<le> 50 \<and>
        (50 < length bs \<longrightarrow> length (take 50 bs) = 50) \<and>
        (length bs \<le> 50 \<longrightarrow> js_get (sent ! i) ''blocks'' = js_get (pages ! i) ''blocks'') \<and>
        js_get (sent ! i) ''entities'' = js_get (pages ! i) ''entities'')"
proof -
  obtain sent where sent: "map_input_page pages = Inr sent" "length sent = length pages"
    "\<forall>i<length pages. \<exists>bs. js_get (pages ! i) ''blocks'' = JArr bs \<and>
              js_get (sent ! i) ''blocks'' = JArr (take 50 bs) \<and>
              js_get (sent ! i) ''entities'' = js_get (pages ! i) ''entities''"
    using map_input_page_ok [OF assms(5)] by blast
  let ?input = "JObj [(''meta'', js_get (js_get body ''ocr_result'') ''meta''),
              (''ocr'', JArr sent),
              (''user_instructions'',
                 js_or (js_get body ''user_instructions'')
                   (JStr ''Analyze this legal document thoroughly''))]"
  have g: "gemini_input (js_get body ''ocr_result'') (js_get body ''user_instructions'') =
             Inr ?input"
    using assms(4) sent(1) by (simp add: gemini_input_def)
  have t: "truthy (js_get (js_get body ''ocr_result'') ''ocr'')"
    using assms(4) by simp
  have "backend_payloads (snd (summarize_POST env JSON_parse generateContent (Inr body))) =
          [?input]"
    unfolding POST_payloads POST_try_reaches_backend [OF assms(1,2,3) t g]
    by (rule call_backend_payloads)
  moreover have "\<forall>i<length pages. \<exists>bs.
        js_get (pages ! i) ''blocks'' = JArr bs \<and>
        js_get (sent ! i) ''blocks'' = JArr (take 50 bs) \<and>
        length (take 50 bs) \<le> 50 \<and>
        (50 < length bs \<longrightarrow> length (take 50 bs) = 50) \<and>
        (length bs \<le> 50 \<longrightarrow> js_get (sent ! i) ''blocks'' = js_get (pages ! i) ''blocks'') \<and>
        js_get (sent ! i) ''entities'' = js_get (pages ! i) ''entities''"
  proof (intro allI impI)
    fix i assume "i < length pages"
    then obtain bs where "js_get (pages ! i) ''blocks'' = JArr bs"
        "js_get (sent ! i) ''blocks'' = JArr (take 50 bs)"
        "js_get (sent ! i) ''entities'' = js_get (pages ! i) ''entities''"
      using sent(3) by blast
    then show "\<exists>bs.
        js_get (pages ! i) ''blocks'' = JArr bs \<and>
        js_get (sent ! i) ''blocks'' = JArr (take 50 bs) \<and>
        length (take 50 bs) \<le> 50 \<and>
        (50 < length bs \<longrightarrow> length (take 50 bs) = 50) \<and>
        (length bs \<le> 50 \<longrightarrow> js_get (sent ! i) ''blocks'' = js_get (pages ! i) ''blocks'') \<and>
        js_get (sent ! i) ''entities'' = js_get (pages ! i) ''entities''"
      by auto
  qed
  ultimately show ?thesis using sent(2) by blast
qed

theorem blocks_capped_entities_whole_witness:
  "SKIP_LLM with_credential \<noteq> Some ''true'' \<and>
   \<not> unset (GEMINI_API_KEY with_credential) \<and>
   truthy (js_get (js_get example_body ''ocr_result'') ''meta'') \<and>
   js_get (js_get example_body ''ocr_result'') ''ocr'' = JArr [example_page] \<and>
   isArray (js_get example_page ''blocks'') \<and>
   (\<exists>sent.
      backend_payloads
        (snd (summarize_POST with_credential
                no_parse silent_backend (Inr example_body))) =
        [JObj [(''meta'', JObj [(''filename'', JStr ''a.pdf'')]),
               (''ocr'', JArr sent),
               (''user_instructions'', JStr ''Analyze this legal document thoroughly'')]] \<and>
      length sent = 1 \<and>
      js_get (sent ! 0) ''blocks'' = JArr (replicate 50 (JStr ''b'')) \<and>
      js_get (sent ! 0) ''entities'' = JArr (replicate 60 (JStr ''e'')))"
proof -
  have h: "SKIP_LLM with_credential \<noteq> Some ''true''"
    "\<not> unset (GEMINI_API_KEY with_credential)"
    "truthy (js_get (js_get example_body ''ocr_result'') ''meta'')"
    "js_get (js_get example_body ''ocr_result'') ''ocr'' = JArr [example_page]"
    "\<forall>p\<in>set [example_page]. isArray (js_get p ''blocks'')"
    by (simp_all add: example_body_def example_page_def lookup_def unset_def with_credential_def)
  have v: "js_get (js_get example_body ''ocr_result'') ''meta'' =
             JObj [(''filename'', JStr ''a.pdf'')]"
    "js_get example_body ''user_instructions'' = JUndefined"
    "js_get example_page ''blocks'' = JArr (replicate 51 (JStr ''b''))"
    "js_get example_page ''entities'' = JArr (replicate 60 (JStr ''e''))"
    by (simp_all add: example_body_def example_page_def lookup_def)
  have t: "take 50 (replicate 51 (JStr ''b'')) = replicate 50 (JStr ''b'')"
    by simp
  obtain sent where s:
    "backend_payloads
        (snd (summarize_POST with_credential
                no_parse silent_backend (Inr example_body))) =
       [JObj [(''meta'', js_get (js_get example_body ''ocr_result'') ''meta''),
              (''ocr'', JArr sent),
              (''user_instructions'',
                 js_or (js_get example_body ''user_instructions'')
                   (JStr ''Analyze this legal document thoroughly''))]]"
    "length sent = length [example_page]"
    "\<forall>i<length [example_page]. \<exists>bs.
        js_get ([example_page] ! i) ''blocks'' = JArr bs \<and>
        js_get (sent ! i) ''blocks'' = JArr (take 50 bs) \<and>
        length (take 50 bs) \<le> 50 \<and>
        (50 < length bs \<longrightarrow> length (take 50 bs) = 50) \<and>
        (length bs \<le> 50 \<longrightarrow> js_get (sent ! i) ''blocks'' = js_get ([example_page] ! i) ''blocks'') \<and>
        js_get (sent ! i) ''entities'' = js_get ([example_page] ! i) ''entities''"
    using blocks_capped_entities_whole [OF h, of no_parse silent_backend] by blast
  from s(3) obtain bs where bs: "js_get ([example_page] ! 0) ''blocks'' = JArr bs"
    "js_get (sent ! 0) ''blocks'' = JArr (take 50 bs)"
    "js_get (sent ! 0) ''entities'' = js_get ([example_page] ! 0) ''entities''"
    by auto
  from bs(1) have "bs = replicate 51 (JStr ''b'')"
    by (simp add: v)
  with bs(2,3) have "js_get (sent ! 0) ''blocks'' = JArr (replicate 50 (JStr ''b''))"
    "js_get (sent ! 0) ''entities'' = JArr (replicate 60 (JStr ''e''))"
    by (simp_all add: v)
  with s(1,2) h show ?thesis
    unfolding v by (simp add: js_or_def)
qed

text \<open>
  C10. With the skip flag set, a request whose \<open>ocr_result\<close> is truthy is answered with
  the mock summary, whatever its structure, and a request whose \<open>ocr_result\<close> is falsy
  with the 400 error \<open>No OCR result provided\<close>; without the flag, the structural
  validation answers a truthy \<open>ocr_result\<close> that lacks \<open>meta\<close> or \<open>ocr\<close> with the 400
  error \<open>Invalid OCR result structure\<close>.
\<close>

theorem skip_before_validation:
  assumes "SKIP_LLM env = Some ''true''" and "\<not> nullish body"
  shows "summarize_POST env JSON_parse generateContent (Inr body) =
           (if truthy (js_get body ''ocr_result'')
            then (NextResponse_json (JObj getMockSummary), [])
            else (NextResponse_json_status
                    (JObj [(''error'', JStr ''No OCR result provided'')]) 400, [])) \<and>
         (truthy (js_get body ''ocr_result'') \<and>
          (\<not> truthy (js_get (js_get body ''ocr_result'') ''meta'') \<or>
           \<not> truthy (js_get (js_get body ''ocr_result'') ''ocr'')) \<longrightarrow>
          summarize_POST (env\<lparr>SKIP_LLM := None\<rparr>) JSON_parse generateContent (Inr body) =
            (NextResponse_json_status
               (JObj [(''error'', JStr ''Invalid OCR result structure'')]) 400, []))"
  using assms
  by (auto simp add: summarize_POST_def summarize_POST_try_def Let_def)

theorem skip_before_validation_witness:
  "SKIP_LLM skip_flag = Some ''true'' \<and>
   \<not> nullish (JObj [(''ocr_result'', JNum (Fin 7))]) \<and>
   summarize_POST skip_flag no_parse silent_backend
     (Inr (JObj [(''ocr_result'', JNum (Fin 7))])) =
     (\<lparr>resp_status = 200, resp_body = JObj getMockSummary\<rparr>, []) \<and>
   summarize_POST (skip_flag\<lparr>SKIP_LLM := None\<rparr>) no_parse silent_backend
     (Inr (JObj [(''ocr_result'', JNum (Fin 7))])) =
     (\<lparr>resp_status = 400,
       resp_body = JObj [(''error'', JStr ''Invalid OCR result structure'')]\<rparr>, [])"
  using skip_before_validation
    [of skip_flag "JObj [(''ocr_result'', JNum (Fin 7))]" no_parse silent_backend]
  by (simp add: lookup_def NextResponse_json_def NextResponse_json_status_def skip_flag_def)

section \<open>Missing configuration in the two routes\<close>

lemma google_missing_config:
  assumes "unset (GOOGLE_CLOUD_PROJECT_ID env) \<or> unset (GOOGLE_CLOUD_LOCATION env) \<or>
           unset (GOOGLE_DOCUMENT_AI_PROCESSOR_ID env) \<or>
           unset (GOOGLE_SERVICE_ACCOUNT_EMAIL env) \<or> unset (GOOGLE_PRIVATE_KEY env)"
  shows "\<exists>m. processWithGoogleDocumentAI env processDocument now buf filename mimeType =
           Inl (Error m)"
  using assms by (auto simp add: processWithGoogleDocumentAI_def)

lemma ocr_POST_adapter_error:
  assumes "OCR_PROVIDER env \<noteq> ''aws''" and "truthy (js_get body ''document'')"
    and "Buffer_from (js_get body ''document'') = Some buf"
    and "processWithGoogleDocumentAI env processDocument now buf
           (js_or (js_get body ''filename'') (JStr ''document.pdf''))
           (js_or (js_get body ''mimeType'') (JStr ''application/pdf'')) = Inl e"
  shows "ocr_POST env Buffer_from processDocument send now (Inr body) =
           OcrError 500 ''OCR processing failed'' (Some (message e))"
proof -
  have "\<not> nullish body" using assms(2) truthy_js_get by blast
  then show ?thesis using assms by (simp add: ocr_POST_def Let_def)
qed

text \<open>
  C9. When the summarization credential is absent, a request with a well-formed OCR
  result is answered with status 200 and the mock summary, and, unless the skip flag
  answered first, the only effect is the logged warning. In the OCR route, when one of
  the Google settings is missing and the provider is not \<open>aws\<close>, a request with a
  document is answered with the 500 error \<open>OCR processing failed\<close>.
\<close>

theorem missing_credential_asymmetry:
  "(unset (GEMINI_API_KEY senv) \<and>
    truthy (js_get (js_get body ''ocr_result'') ''meta'') \<and>
    truthy (js_get (js_get body ''ocr_result'') ''ocr'') \<longrightarrow>
      fst (summarize_POST senv JSON_parse generateContent (Inr body)) =
        \<lparr>resp_status = 200, resp_body = JObj getMockSummary\<rparr> \<and>
      (SKIP_LLM senv \<noteq> Some ''true'' \<longrightarrow>
         snd (summarize_POST senv JSON_parse generateContent (Inr body)) =
           [ConsoleWarn ''GEMINI_API_KEY not set - using mock response''])) \<and>
   ((unset (GOOGLE_CLOUD_PROJECT_ID oenv) \<or> unset (GOOGLE_CLOUD_LOCATION oenv) \<or>
     unset (GOOGLE_DOCUMENT_AI_PROCESSOR_ID oenv) \<or>
     unset (GOOGLE_SERVICE_ACCOUNT_EMAIL oenv) \<or> unset (GOOGLE_PRIVATE_KEY oenv)) \<and>
    OCR_PROVIDER oenv \<noteq> ''aws'' \<and>
    truthy (js_get obody ''document'') \<and>
    Buffer_from (js_get obody ''document'') = Some buf \<longrightarrow>
      (\<exists>details. ocr_POST oenv Buffer_from processDocument send now (Inr obody) =
         OcrError 500 ''OCR processing failed'' (Some details)))"
proof (intro conjI impI)
  assume a: "unset (GEMINI_API_KEY senv) \<and>
    truthy (js_get (js_get body ''ocr_result'') ''meta'') \<and>
    truthy (js_get (js_get body ''ocr_result'') ''ocr'')"
  then have t: "truthy (js_get body ''ocr_result'')" "\<not> nullish body"
    using truthy_js_get by blast+
  show "fst (summarize_POST senv JSON_parse generateContent (Inr body)) =
        \<lparr>resp_status = 200, resp_body = JObj getMockSummary\<rparr>"
    using a t
    by (simp add: summarize_POST_def summarize_POST_try_def Let_def unset_def
        NextResponse_json_def split: option.splits)
  assume "SKIP_LLM senv \<noteq> Some ''true''"
  then show "snd (summarize_POST senv JSON_parse generateContent (Inr body)) =
           [ConsoleWarn ''GEMINI_API_KEY not set - using mock response'']"
    using a t
    by (simp add: summarize_POST_def summarize_POST_try_def Let_def unset_def
        split: option.splits)
next
  assume a: "(unset (GOOGLE_CLOUD_PROJECT_ID oenv) \<or> unset (GOOGLE_CLOUD_LOCATION oenv) \<or>
     unset (GOOGLE_DOCUMENT_AI_PROCESSOR_ID oenv) \<or>
     unset (GOOGLE_SERVICE_ACCOUNT_EMAIL oenv) \<or> unset (GOOGLE_PRIVATE_KEY oenv)) \<and>
    OCR_PROVIDER oenv \<noteq> ''aws'' \<and>
    truthy (js_get obody ''document'') \<and>
    Buffer_from (js_get obody ''document'') = Some buf"
  then obtain m where "processWithGoogleDocumentAI oenv processDocument now buf
           (js_or (js_get obody ''filename'') (JStr ''document.pdf''))
           (js_or (js_get obody ''mimeType'') (JStr ''application/pdf'')) = Inl (Error m)"
    using google_missing_config by blast
  then show "\<exists>details. ocr_POST oenv Buffer_from processDocument send now (Inr obody) =
         OcrError 500 ''OCR processing failed'' (Some details)"
    using ocr_POST_adapter_error a by blast
qed

theorem missing_credential_asymmetry_witness:
  "unset (GEMINI_API_KEY no_credential) \<and>
   SKIP_LLM no_credential \<noteq> Some ''true'' \<and>
   unset (GOOGLE_CLOUD_PROJECT_ID unconfigured) \<and>
   OCR_PROVIDER unconfigured \<noteq> ''aws'' \<and>
   truthy (js_get document_body ''document'') \<and>
   summarize_POST no_credential no_parse silent_backend
     (Inr (JObj [(''ocr_result'', example_ocr_result)])) =
     (\<lparr>resp_status = 200, resp_body = JObj getMockSummary\<rparr>,
      [ConsoleWarn ''GEMINI_API_KEY not set - using mock response'']) \<and>
   (\<exists>details. ocr_POST unconfigured decode_any no_google no_textract ''2024-01-01T00:00:00.000Z''
        (Inr document_body) = OcrError 500 ''OCR processing failed'' (Some details))"
proof -
  have h: "unset (GEMINI_API_KEY no_credential)" "SKIP_LLM no_credential \<noteq> Some ''true''"
    "truthy (js_get (js_get (JObj [(''ocr_result'', example_ocr_result)]) ''ocr_result'') ''meta'')"
    "truthy (js_get (js_get (JObj [(''ocr_result'', example_ocr_result)]) ''ocr_result'') ''ocr'')"
    "unset (GOOGLE_CLOUD_PROJECT_ID unconfigured)" "OCR_PROVIDER unconfigured \<noteq> ''aws''"
    "truthy (js_get document_body ''document'')"
    "decode_any (js_get document_body ''document'') = Some [37, 80, 68, 70]"
    by (simp_all add: unset_def no_credential_def example_ocr_result_def lookup_def
        unconfigured_def OCR_PROVIDER_def str_or_def document_body_def decode_any_def)
  show ?thesis
    using h missing_credential_asymmetry
      [where senv = no_credential and body = "JObj [(''ocr_result'', example_ocr_result)]"
         and JSON_parse = no_parse and generateContent = silent_backend
         and oenv = unconfigured and obody = document_body and Buffer_from = decode_any
         and buf = "[37, 80, 68, 70]" and processDocument = no_google and send = no_textract
         and now = "''2024-01-01T00:00:00.000Z''"]
    by (simp add: prod_eq_iff)
qed

section \<open>Properties of the OCR adapters\<close>


subsection \<open>Rounding to binary64\<close>

lemma bitlen_between:
  assumes "2 ^ k \<le> n" and "n < 2 ^ Suc k"
  shows "bitlen n = int k + 1"
proof (rule antisym)
  show "bitlen n \<le> int k + 1"
    using assms(2) by (simp add: bitlen_le_iff_power nat_add_distrib)
  show "int k + 1 \<le> bitlen n"
    using assms(1) by (simp add: bitlen_ge_iff_power nat_add_distrib)
qed

lemma quantum_normal:
  assumes "2 powi e \<le> \<bar>x\<bar>" and "\<bar>x\<bar> < 2 powi (e + 1)" and "- 1022 \<le> e"
  shows "quantum x = 2 powi (e - 52)"
proof -
  define k where "k = nat (e + 1074)"
  have k: "int k = e + 1074" using assms(3) by (simp add: k_def)
  have p: "(2::real) ^ k = 2 powi e * 2 ^ 1074"
    using k by (metis power_int_add power_int_of_nat of_nat_numeral zero_neq_numeral)
  have p1: "(2::real) ^ Suc k = 2 powi (e + 1) * 2 ^ 1074"
    using p by (simp add: power_int_add)
  have "(2::real) ^ k \<le> \<bar>x\<bar> * 2 ^ 1074"
    unfolding p using assms(1) by simp
  then have "of_int (2 ^ k) \<le> \<bar>x\<bar> * 2 ^ 1074" by simp
  then have lo: "2 ^ k \<le> \<lfloor>\<bar>x\<bar> * 2 ^ 1074\<rfloor>" by (simp only: le_floor_iff)
  have "\<bar>x\<bar> * 2 ^ 1074 < (2::real) ^ Suc k"
    unfolding p1 using assms(2) by simp
  then have "\<bar>x\<bar> * 2 ^ 1074 < of_int (2 ^ Suc k)" by simp
  then have hi: "\<lfloor>\<bar>x\<bar> * 2 ^ 1074\<rfloor> < 2 ^ Suc k" by (simp only: floor_less_iff)
  have b: "bitlen \<lfloor>\<bar>x\<bar> * 2 ^ 1074\<rfloor> = int k + 1"
    using lo hi by (rule bitlen_between)
  have "max (int k + 1 - 53) 0 - 1074 = e - 52"
    using k assms(3) by linarith
  then show ?thesis
    unfolding quantum_def b by (rule arg_cong)
qed

lemma round64_normal:
  assumes "2 powi e \<le> x" and "x < 2 powi (e + 1)" and "- 1022 \<le> e"
  shows "round64 x = of_int (round_even (x / 2 powi (e - 52))) * 2 powi (e - 52)"
proof -
  have "0 < x" using assms(1) by (smt (verit) zero_less_power_int)
  then show ?thesis
    using quantum_normal [of e x] assms by (simp add: round64_def)
qed

lemma round_even_err: "\<bar>of_int (round_even y) - y\<bar> \<le> 1 / 2"
proof -
  have "of_int \<lfloor>y\<rfloor> \<le> y" "y < of_int \<lfloor>y\<rfloor> + 1" by linarith+
  then show ?thesis
    by (auto simp add: round_even_def Let_def)
qed

lemma quantum_pos: "0 < quantum x"
  by (simp add: quantum_def)

lemma round64_err_quantum: "\<bar>round64 x - x\<bar> \<le> quantum x / 2"
proof -
  define q where "q = quantum x"
  define R where "R = real_of_int (round_even (\<bar>x\<bar> / q))"
  have q: "0 < q" by (simp add: q_def quantum_pos)
  have "\<bar>R - \<bar>x\<bar> / q\<bar> \<le> 1 / 2"
    unfolding R_def by (rule round_even_err)
  then have "\<bar>R - \<bar>x\<bar> / q\<bar> * q \<le> 1 / 2 * q"
    using q by (simp add: mult_right_mono)
  moreover have "\<bar>R - \<bar>x\<bar> / q\<bar> * q = \<bar>R * q - \<bar>x\<bar>\<bar>"
  proof -
    have "(R - \<bar>x\<bar> / q) * q = R * q - \<bar>x\<bar>"
      using q by (simp add: left_diff_distrib)
    then have "\<bar>R * q - \<bar>x\<bar>\<bar> = \<bar>(R - \<bar>x\<bar> / q) * q\<bar>" by simp
    also have "\<dots> = \<bar>R - \<bar>x\<bar> / q\<bar> * \<bar>q\<bar>" by (rule abs_mult)
    finally show ?thesis using q by simp
  qed
  ultimately have e: "\<bar>R * q - \<bar>x\<bar>\<bar> \<le> q / 2" by simp
  have "round64 x - x = sgn x * (R * q - \<bar>x\<bar>)"
    by (simp add: round64_def R_def q_def right_diff_distrib sgn_mult_abs)
  then have "\<bar>round64 x - x\<bar> = \<bar>sgn x\<bar> * \<bar>R * q - \<bar>x\<bar>\<bar>"
    by (simp add: abs_mult)
  also have "\<dots> \<le> 1 * \<bar>R * q - \<bar>x\<bar>\<bar>"
    by (intro mult_right_mono) (auto simp add: abs_sgn_eq)
  finally show ?thesis using e by (simp add: q_def)
qed

lemma quantum_le: "quantum x \<le> \<bar>x\<bar> / 2 ^ 52 + 2 powi (- 1074)"
proof -
  define n where "n = \<lfloor>\<bar>x\<bar> * 2 ^ 1074\<rfloor>"
  define b where "b = bitlen n"
  have qd: "quantum x = 2 powi (max (b - 53) 0 - 1074)"
    by (simp only: quantum_def b_def n_def)
  show ?thesis
  proof (cases "b \<le> 53")
    case True
    then have "max (b - 53) 0 - 1074 = - 1074" by simp
    then have "quantum x = 2 powi (- 1074)" unfolding qd by (rule arg_cong)
    moreover have "0 \<le> \<bar>x\<bar> / 2 ^ 52" by simp
    ultimately show ?thesis by linarith
  next
    case False
    then have b: "53 < b" by simp
    then have "0 < n" using bitlen_eq_zero_iff [of n] b_def by (cases "0 < n") auto
    then have "2 ^ nat (b - 1) \<le> n" using bitlen_bounds [of n] by (simp add: b_def)
    then have "real_of_int (2 ^ nat (b - 1)) \<le> real_of_int n" by (simp only: of_int_le_iff)
    also have "real_of_int n \<le> \<bar>x\<bar> * 2 ^ 1074" by (simp only: n_def of_int_floor_le)
    finally have lo: "(2::real) ^ nat (b - 1) \<le> \<bar>x\<bar> * 2 ^ 1074" by simp
    have "max (b - 53) 0 - 1074 = int (nat (b - 1)) + (- 52 + - 1074)"
      using b by simp
    then have "quantum x = 2 powi (int (nat (b - 1)) + (- 52 + - 1074))"
      unfolding qd by (rule arg_cong)
    also have "\<dots> = 2 powi int (nat (b - 1)) * 2 powi (- 52 + - 1074)"
      by (rule power_int_add) simp
    also have "\<dots> = 2 ^ nat (b - 1) * (2 powi (- 52) * 2 powi (- 1074))"
    proof -
      have "(2::real) powi (- 52 + - 1074) = 2 powi (- 52) * 2 powi (- 1074)"
        by (rule power_int_add) simp
      then show ?thesis by (simp only: power_int_of_nat)
    qed
    also have "\<dots> \<le> (\<bar>x\<bar> * 2 ^ 1074) * (2 powi (- 52) * 2 powi (- 1074))"
      by (intro mult_right_mono lo) simp
    also have "\<dots> = \<bar>x\<bar> / 2 ^ 52"
      by (simp add: power_int_minus field_simps)
    finally show ?thesis
      by (smt (verit) zero_less_power_int)
  qed
qed

lemma round64_err: "\<bar>round64 x - x\<bar> \<le> \<bar>x\<bar> / 2 ^ 53 + 2 powi (- 1075)"
proof -
  have "quantum x / 2 \<le> (\<bar>x\<bar> / 2 ^ 52 + 2 powi (- 1074)) / 2"
    using quantum_le [of x] by (rule divide_right_mono) simp
  with round64_err_quantum [of x]
  have "\<bar>round64 x - x\<bar> \<le> (\<bar>x\<bar> / 2 ^ 52 + 2 powi (- 1074)) / 2"
    by (rule order_trans)
  also have "\<dots> = \<bar>x\<bar> / 2 ^ 53 + 2 powi (- 1075)"
    by (simp add: power_int_minus field_simps)
  finally show ?thesis .
qed

lemma tiny_le: "(2::real) powi (- 1075) \<le> 1 / 2 ^ 53"
proof -
  have "(2::real) powi (- 1075) \<le> 2 powi (- 53)"
    by (rule power_int_increasing) simp_all
  also have "(2::real) powi (- 53) = 1 / 2 ^ 53"
    by (simp only: power_int_minus power_int_numeral inverse_eq_divide)
  finally show ?thesis .
qed

lemma max64_ge: "2 ^ 52 \<le> max64"
proof -
  have "(1::real) \<le> 2 ^ 53 - 1" by simp
  moreover have "(2::real) ^ 52 \<le> 2 ^ 971" by (rule power_increasing) simp_all
  ultimately have "1 * (2::real) ^ 52 \<le> (2 ^ 53 - 1) * 2 ^ 971"
    by (rule mult_mono) simp_all
  then show ?thesis by (simp only: max64_def mult_1)
qed

lemma binary64_small:
  assumes "\<bar>x\<bar> \<le> b" and "b + 1 \<le> 2 ^ 52"
  shows "binary64 x = Some (round64 x)" and "\<bar>round64 x - x\<bar> \<le> (b + 1) / 2 ^ 53"
    and "\<bar>round64 x\<bar> \<le> b + 1"
proof -
  have b: "0 \<le> b" using assms(1) by linarith
  have "\<bar>round64 x - x\<bar> \<le> \<bar>x\<bar> / 2 ^ 53 + 2 powi (- 1075)"
    by (rule round64_err)
  also have "\<dots> \<le> b / 2 ^ 53 + 1 / 2 ^ 53"
    using assms(1) tiny_le by (intro add_mono divide_right_mono) simp_all
  also have "\<dots> = (b + 1) / 2 ^ 53"
    by (simp add: add_divide_distrib)
  finally show e: "\<bar>round64 x - x\<bar> \<le> (b + 1) / 2 ^ 53" .
  have "(b + 1) / 2 ^ 53 \<le> 2 ^ 52 / 2 ^ 53"
    using assms(2) by (intro divide_right_mono) simp_all
  then have "(b + 1) / 2 ^ 53 \<le> 1" by simp
  with e assms(1) show r: "\<bar>round64 x\<bar> \<le> b + 1" by linarith
  then have "\<bar>round64 x\<bar> \<le> max64" using assms(2) max64_ge by linarith
  then show "binary64 x = Some (round64 x)" by (simp add: binary64_def)
qed

lemma running_sum_snoc: "running_sum (cs @ [c]) = js_add (running_sum cs) c"
  by (simp add: running_sum_def)

lemma running_sum_bound:
  assumes "\<forall>c\<in>set cs. 0 \<le> c \<and> c \<le> 1" and "length cs < 2 ^ 51"
  shows "\<exists>s. running_sum cs = Some s \<and> \<bar>s\<bar> \<le> 2 * real (length cs) \<and>
           \<bar>s - sum_list cs\<bar> \<le> (real (length cs))\<^sup>2 / 2 ^ 52"
  using assms
proof (induction cs rule: rev_induct)
  case Nil
  then show ?case by (simp add: running_sum_def)
next
  case (snoc c cs)
  define k where "k = real (length cs)"
  have c: "0 \<le> c" "c \<le> 1" using snoc.prems(1) by simp_all
  have "length cs + 1 < 2 ^ 51" using snoc.prems(2) by simp
  then have "real (length cs + 1) < real (2 ^ 51)" by (simp only: of_nat_less_iff)
  then have k: "0 \<le> k" "k + 1 < 2 ^ 51" by (simp_all add: k_def)
  from snoc obtain s where s: "running_sum cs = Some s" "\<bar>s\<bar> \<le> 2 * k"
      "\<bar>s - sum_list cs\<bar> \<le> k\<^sup>2 / 2 ^ 52"
    unfolding k_def by auto
  have a: "\<bar>s + c\<bar> \<le> 2 * k + 1" using s(2) c by linarith
  have b: "2 * k + 1 + 1 \<le> 2 ^ 52" using k by simp
  note R = binary64_small [OF a b]
  have rs: "running_sum (cs @ [c]) = Some (round64 (s + c))"
    by (simp add: running_sum_snoc s(1) js_add_def R(1))
  have len: "real (length (cs @ [c])) = k + 1" by (simp add: k_def)
  have 1: "\<bar>round64 (s + c)\<bar> \<le> 2 * (k + 1)" using R(3) by simp
  have "(2 * k + 1 + 1) / 2 ^ 53 = (k + 1) / 2 ^ 52" by simp
  then have e: "\<bar>round64 (s + c) - (s + c)\<bar> \<le> (k + 1) / 2 ^ 52" using R(2) by simp
  have "\<bar>round64 (s + c) - sum_list (cs @ [c])\<bar> \<le>
          \<bar>round64 (s + c) - (s + c)\<bar> + \<bar>s - sum_list cs\<bar>"
    by simp
  also have "\<dots> \<le> (k + 1) / 2 ^ 52 + k\<^sup>2 / 2 ^ 52"
    using e s(3) by linarith
  also have "\<dots> = (k\<^sup>2 + k + 1) / 2 ^ 52"
    by (simp add: add_divide_distrib)
  also have "\<dots> \<le> (k + 1)\<^sup>2 / 2 ^ 52"
    using k(1) by (intro divide_right_mono) (simp_all add: power2_eq_square algebra_simps)
  finally have 2: "\<bar>round64 (s + c) - sum_list (cs @ [c])\<bar> \<le> (k + 1)\<^sup>2 / 2 ^ 52" .
  show ?case
    unfolding len using rs 1 2 by simp
qed

lemma rounded_mean_bound:
  assumes "\<forall>c\<in>set cs. 0 \<le> c \<and> c \<le> 1" and "cs \<noteq> []" and "length cs < 2 ^ 51"
  shows "\<exists>v. js_div (running_sum cs) (real (length cs)) = Some v \<and>
           \<bar>v - sum_list cs / real (length cs)\<bar> \<le> (real (length cs) + 2) / 2 ^ 52"
proof -
  define n where "n = real (length cs)"
  have n: "1 \<le> n" using assms(2) by (cases cs) (simp_all add: n_def)
  obtain s where s: "running_sum cs = Some s" "\<bar>s\<bar> \<le> 2 * n"
      "\<bar>s - sum_list cs\<bar> \<le> n\<^sup>2 / 2 ^ 52"
    using running_sum_bound [OF assms(1,3)] unfolding n_def by auto
  have "\<bar>s / n\<bar> = \<bar>s\<bar> / n" using n by simp
  also have "\<dots> \<le> (2 * n) / n" using s(2) n by (intro divide_right_mono) simp_all
  finally have a: "\<bar>s / n\<bar> \<le> 2" using n by simp
  have b: "(2::real) + 1 \<le> 2 ^ 52" by simp
  note R = binary64_small [OF a b]
  have d: "js_div (running_sum cs) n = Some (round64 (s / n))"
    using n by (simp add: js_div_def s(1) R(1))
  have "\<bar>s / n - sum_list cs / n\<bar> = \<bar>s - sum_list cs\<bar> / n"
    using n by (simp add: diff_divide_distrib [symmetric])
  also have "\<dots> \<le> (n\<^sup>2 / 2 ^ 52) / n"
    using s(3) n by (intro divide_right_mono) simp_all
  also have "\<dots> = n / 2 ^ 52"
    using n by (simp add: power2_eq_square)
  finally have q: "\<bar>s / n - sum_list cs / n\<bar> \<le> n / 2 ^ 52" .
  have "(2 + 1) / (2::real) ^ 53 \<le> 2 / 2 ^ 52" by simp
  then have r: "\<bar>round64 (s / n) - s / n\<bar> \<le> 2 / 2 ^ 52" using R(2) by linarith
  have "\<bar>round64 (s / n) - sum_list cs / n\<bar> \<le> n / 2 ^ 52 + 2 / 2 ^ 52"
    using q r by linarith
  then have "\<bar>round64 (s / n) - sum_list cs / n\<bar> \<le> (n + 2) / 2 ^ 52"
    by (simp add: add_divide_distrib)
  with d show ?thesis unfolding n_def by blast
qed

subsection \<open>The page confidence\<close>

lemma acc_ok_empty: "acc_ok empty_acc"
  by (simp add: acc_ok_def empty_acc_def running_sum_def)

lemma acc_ok_push_item: "acc_ok acc \<Longrightarrow> acc_ok (push_item prefix btype i fullText acc item)"
  by (simp add: acc_ok_def push_item_def Let_def running_sum_def split: option.splits)

lemma acc_ok_push_entity: "acc_ok acc \<Longrightarrow> acc_ok (push_entity i acc entity)"
  by (simp add: acc_ok_def push_entity_def)

lemma acc_ok_push_line: "acc_ok acc \<Longrightarrow> acc_ok (push_line acc block)"
  by (simp add: acc_ok_def push_line_def Let_def running_sum_def)

lemma acc_ok_push_key_value: "acc_ok acc \<Longrightarrow> acc_ok (push_key_value blockMap acc block)"
  by (simp add: acc_ok_def push_key_value_def Let_def)

lemma acc_ok_foldl:
  assumes "\<And>acc x. acc_ok acc \<Longrightarrow> acc_ok (f acc x)" and "acc_ok acc"
  shows "acc_ok (foldl f acc xs)"
  using assms(2) by (induction xs arbitrary: acc) (simp_all add: assms(1))

lemma acc_confidence_rounded:
  assumes "acc_ok acc"
  shows "acc_confidence acc =
           (if blocks acc = [] then Some 0
            else js_div (running_sum (map block_confidence (blocks acc)))
                   (real (length (blocks acc))))"
  using assms by (auto simp add: acc_ok_def acc_confidence_def)

lemma google_page_ok:
  "page_confidence (google_page document i) =
     (if page_blocks (google_page document i) = [] then Some 0
      else js_div (running_sum (map block_confidence (page_blocks (google_page document i))))
             (real (length (page_blocks (google_page document i)))))"
proof -
  define fullText where "fullText = str_or (g_text document) []"
  define acc1 where "acc1 = (case page_at document i of
                    None \<Rightarrow> empty_acc
                  | Some p \<Rightarrow>
                      (case g_blocks p of
                         None \<Rightarrow> empty_acc
                       | Some bs \<Rightarrow> foldl (push_item ''block'' PARAGRAPH i fullText) empty_acc bs))"
  define acc2 where "acc2 = (if length (blocks acc1) = 0
                  then (case page_at document i of
                          None \<Rightarrow> acc1
                        | Some p \<Rightarrow>
                            (case g_lines p of
                               None \<Rightarrow> acc1
                             | Some ls \<Rightarrow> foldl (push_item ''line'' LINE i fullText) acc1 ls))
                  else acc1)"
  define acc3 where "acc3 = (case g_entities document of
                    None \<Rightarrow> acc2
                  | Some es \<Rightarrow> foldl (push_entity i) acc2 es)"
  have 1: "acc_ok acc1"
    unfolding acc1_def
    by (auto split: option.splits intro!: acc_ok_foldl acc_ok_push_item acc_ok_empty)
  have 2: "acc_ok acc2"
    unfolding acc2_def using 1
    by (auto split: option.splits intro!: acc_ok_foldl acc_ok_push_item)
  have 3: "acc_ok acc3"
    unfolding acc3_def using 2
    by (auto split: option.splits intro!: acc_ok_foldl acc_ok_push_entity)
  have "google_page document i =
      \<lparr>page_page = i + 1, page_text = trim (pageText acc3), page_blocks = blocks acc3,
       page_entities = entities acc3, page_confidence = acc_confidence acc3\<rparr>"
    unfolding google_page_def Let_def acc3_def acc2_def acc1_def fullText_def
    by (rule refl)
  then show ?thesis
    using acc_confidence_rounded [OF 3] by simp
qed

lemma textract_page_ok:
  assumes "acc = foldl (textract_step m) empty_acc bs"
  shows "acc_confidence acc =
           (if blocks acc = [] then Some 0
            else js_div (running_sum (map block_confidence (blocks acc)))
                   (real (length (blocks acc))))"
proof -
  have "acc_ok acc"
    unfolding assms textract_step_def
    by (intro acc_ok_foldl acc_ok_push_key_value acc_ok_push_line acc_ok_empty)
  then show ?thesis by (rule acc_confidence_rounded)
qed

lemma adapter_page_confidence:
  assumes "processWithGoogleDocumentAI env processDocument now buf filename mimeType = Inr r \<or>
           processWithAWSTextract send now buf filename = Inr r"
    and "p \<in> set (ocr r)"
  shows "page_confidence p =
           (if page_blocks p = [] then Some 0
            else js_div (running_sum (map block_confidence (page_blocks p)))
                   (real (length (page_blocks p))))"
  using assms(1)
proof
  assume "processWithGoogleDocumentAI env processDocument now buf filename mimeType = Inr r"
  then obtain document where "ocr r = map (google_page document) [0..<pageCount document]"
    by (auto simp add: processWithGoogleDocumentAI_def split: if_splits sum.splits option.splits)
  with assms(2) obtain i where "p = google_page document i" by auto
  then show ?thesis using google_page_ok by simp
next
  assume "processWithAWSTextract send now buf filename = Inr r"
  then obtain bs m where "ocr r = [\<lparr>page_page = 1,
                             page_text = trim (pageText (foldl (textract_step m) empty_acc bs)),
                             page_blocks = blocks (foldl (textract_step m) empty_acc bs),
                             page_entities = entities (foldl (textract_step m) empty_acc bs),
                             page_confidence = acc_confidence (foldl (textract_step m) empty_acc bs)\<rparr>]"
    by (auto simp add: processWithAWSTextract_def Let_def split: sum.splits option.splits)
  with assms(2) show ?thesis using textract_page_ok [OF refl, of m bs] by simp
qed

subsection \<open>The example of three lines\<close>

lemma string_of_nat_digit: "n < 10 \<Longrightarrow> string_of_nat n = [''0123456789'' ! n]"
  by (simp add: string_of_nat.simps)

lemma round64_three:
  "round64 (90 / 100) = 8106479329266893 / 2 ^ 53"
  "round64 (80 / 100) = 7205759403792794 / 2 ^ 53"
  "round64 (70 / 100) = 6305039478318694 / 2 ^ 53"
  using round64_normal [of "- 1" "90 / 100"] round64_normal [of "- 1" "80 / 100"]
    round64_normal [of "- 1" "70 / 100"]
  by (simp_all add: round_even_def)

lemma js_add_three:
  "js_add (Some 0) (8106479329266893 / 2 ^ 53) = Some (8106479329266893 / 2 ^ 53)"
  "js_add (Some (8106479329266893 / 2 ^ 53)) (7205759403792794 / 2 ^ 53) =
     Some (7656119366529844 / 2 ^ 52)"
  "js_add (Some (7656119366529844 / 2 ^ 52)) (6305039478318694 / 2 ^ 53) =
     Some (5404319552844596 / 2 ^ 51)"
  using round64_normal [of "- 1" "0 + 8106479329266893 / 2 ^ 53"]
    round64_normal [of "0" "8106479329266893 / 2 ^ 53 + 7205759403792794 / 2 ^ 53"]
    round64_normal [of "1" "7656119366529844 / 2 ^ 52 + 6305039478318694 / 2 ^ 53"]
  by (simp_all add: js_add_def binary64_def round_even_def max64_def)

lemma js_div_three:
  "js_div (Some (5404319552844596 / 2 ^ 51)) 3 = Some (7205759403792795 / 2 ^ 53)"
  using round64_normal [of "- 1" "5404319552844596 / 2 ^ 51 / 3"]
  by (simp add: js_div_def binary64_def round_even_def max64_def)

lemma rounded_mean_three:
  "js_div (running_sum [8106479329266893 / 2 ^ 53, 7205759403792794 / 2 ^ 53,
                        6305039478318694 / 2 ^ 53]) 3 =
     Some (7205759403792795 / 2 ^ 53)"
  unfolding running_sum_def foldl_Cons foldl_Nil js_add_three js_div_three
  by (rule refl)

lemma three_lines_answer:
  "processWithAWSTextract three_lines ''2024-01-01T00:00:00.000Z'' [] (JStr ''a.pdf'') =
     Inr three_lines_result"
proof -
  have t: "trim [CHR ''a'', CHR 0x0A, CHR ''b'', CHR 0x0A, CHR ''c'', CHR 0x0A] =
             [CHR ''a'', CHR 0x0A, CHR ''b'', CHR 0x0A, CHR ''c'']"
    by (simp add: trim_def is_space_def)
  have n: "(90::real) \<noteq> 0" "(80::real) \<noteq> 0" "(70::real) \<noteq> 0" by simp_all
  have acc: "foldl (textract_step m) empty_acc
               [text_line ''a'' 90, text_line ''b'' 80, text_line ''c'' 70] =
     \<lparr>blocks = [line_block ''block-0'' ''a'' (round64 (90 / 100)),
                line_block ''block-1'' ''b'' (round64 (80 / 100)),
                line_block ''block-2'' ''c'' (round64 (70 / 100))],
      entities = [],
      pageText = [CHR ''a'', CHR 0x0A, CHR ''b'', CHR 0x0A, CHR ''c'', CHR 0x0A],
      totalConfidence =
        js_add (js_add (js_add (Some 0) (round64 (90 / 100))) (round64 (80 / 100)))
          (round64 (70 / 100)),
      confidenceCount = 3\<rparr>" for m
    by (simp add: textract_step_def push_line_def push_key_value_def text_line_def unset_def
        empty_acc_def line_block_def str_or_def num_or_zero_def string_of_nat_digit Let_def
        del: js_add_three round64_three)
  have "processWithAWSTextract three_lines ''2024-01-01T00:00:00.000Z'' [] (JStr ''a.pdf'') =
     Inr \<lparr>meta = \<lparr>meta_filename = JStr ''a.pdf'', meta_pages = 1,
                  meta_provider = ''aws-textract'',
                  meta_processedAt = ''2024-01-01T00:00:00.000Z''\<rparr>,
          ocr = [\<lparr>page_page = 1,
                  page_text = trim [CHR ''a'', CHR 0x0A, CHR ''b'', CHR 0x0A, CHR ''c'', CHR 0x0A],
                  page_blocks = [line_block ''block-0'' ''a'' (round64 (90 / 100)),
                                 line_block ''block-1'' ''b'' (round64 (80 / 100)),
                                 line_block ''block-2'' ''c'' (round64 (70 / 100))],
                  page_entities = [],
                  page_confidence =
                    (if 0 < (3::nat)
                     then js_div
                            (js_add (js_add (js_add (Some 0) (round64 (90 / 100)))
                               (round64 (80 / 100))) (round64 (70 / 100)))
                            (real 3)
                     else Some 0)\<rparr>]\<rparr>"
    by (simp only: processWithAWSTextract_def three_lines_def Let_def sum.case option.case
        a_response.select_convs acc page_acc.select_convs acc_confidence_def)
  also have "(if 0 < (3::nat)
                     then js_div
                            (js_add (js_add (js_add (Some 0) (round64 (90 / 100)))
                               (round64 (80 / 100))) (round64 (70 / 100)))
                            (real 3)
                     else Some 0) = Some (7205759403792795 / 2 ^ 53)"
    unfolding round64_three js_add_three of_nat_numeral js_div_three by simp
  finally show ?thesis
    unfolding t round64_three three_lines_result_def three_lines_page_def .
qed

text \<open>
  C5, as stated: the page confidence is the arithmetic mean of the confidences of the
  blocks of the page, 0.8 for the confidences 0.9, 0.8 and 0.7. It fails at a Textract
  answer of three lines with the confidences 90, 80 and 70: the blocks get the doubles
  nearest to 0.9, 0.8 and 0.7, and the page confidence is the double
  0.8000000000000002, which is neither the mean of the three block confidences nor 0.8.
\<close>

theorem page_confidence_counterexample:
  "processWithAWSTextract three_lines ''2024-01-01T00:00:00.000Z'' [] (JStr ''a.pdf'') =
     Inr \<lparr>meta = \<lparr>meta_filename = JStr ''a.pdf'', meta_pages = 1,
                  meta_provider = ''aws-textract'',
                  meta_processedAt = ''2024-01-01T00:00:00.000Z''\<rparr>,
          ocr = [\<lparr>page_page = 1,
                  page_text = [CHR ''a'', CHR 0x0A, CHR ''b'', CHR 0x0A, CHR ''c''],
                  page_blocks =
                    [line_block ''block-0'' ''a'' (8106479329266893 / 2 ^ 53),
                     line_block ''block-1'' ''b'' (7205759403792794 / 2 ^ 53),
                     line_block ''block-2'' ''c'' (6305039478318694 / 2 ^ 53)],
                  page_entities = [],
                  page_confidence = Some (7205759403792795 / 2 ^ 53)\<rparr>]\<rparr> \<and>
   (7205759403792795 / 2 ^ 53 :: real) \<noteq>
     (8106479329266893 / 2 ^ 53 + 7205759403792794 / 2 ^ 53 + 6305039478318694 / 2 ^ 53) / 3 \<and>
   (7205759403792795 / 2 ^ 53 :: real) \<noteq> 8 / 10"
proof -
  have "processWithAWSTextract three_lines ''2024-01-01T00:00:00.000Z'' [] (JStr ''a.pdf'') =
     Inr \<lparr>meta = \<lparr>meta_filename = JStr ''a.pdf'', meta_pages = 1,
                  meta_provider = ''aws-textract'',
                  meta_processedAt = ''2024-01-01T00:00:00.000Z''\<rparr>,
          ocr = [\<lparr>page_page = 1,
                  page_text = [CHR ''a'', CHR 0x0A, CHR ''b'', CHR 0x0A, CHR ''c''],
                  page_blocks =
                    [line_block ''block-0'' ''a'' (8106479329266893 / 2 ^ 53),
                     line_block ''block-1'' ''b'' (7205759403792794 / 2 ^ 53),
                     line_block ''block-2'' ''c'' (6305039478318694 / 2 ^ 53)],
                  page_entities = [],
                  page_confidence = Some (7205759403792795 / 2 ^ 53)\<rparr>]\<rparr>"
    unfolding three_lines_answer three_lines_result_def three_lines_page_def by (rule refl)
  moreover have "(7205759403792795 / 2 ^ 53 :: real) \<noteq>
     (8106479329266893 / 2 ^ 53 + 7205759403792794 / 2 ^ 53 + 6305039478318694 / 2 ^ 53) / 3"
    "(7205759403792795 / 2 ^ 53 :: real) \<noteq> 8 / 10"
    by simp_all
  ultimately show ?thesis by (intro conjI)
qed

text \<open>
  C5, amended: in every page of an OCR Result that an adapter returns, the page
  confidence is 0 (a number, not the result of a division by zero) when the page has
  no block; otherwise it is the binary64 quotient, by the number of blocks, of the
  binary64 running sum of the block confidences in page order. That is the arithmetic
  mean up to rounding: when every block confidence lies in the unit interval and the
  page has fewer than \<open>2 ^ 51\<close> blocks, it is a finite number within
  \<open>(n + 2) / 2 ^ 52\<close> of the mean of the \<open>n\<close> block confidences. For the block
  confidences 0.9, 0.8 and 0.7 (the doubles nearest to them) it is
  \<open>7205759403792795 / 2 ^ 53\<close>, the double 0.8000000000000002.
\<close>

theorem page_confidence_rounded_mean:
  assumes "processWithGoogleDocumentAI env processDocument now buf filename mimeType = Inr r \<or>
           processWithAWSTextract send now buf filename = Inr r"
    and "p \<in> set (ocr r)"
  shows "page_confidence p =
           (if page_blocks p = [] then Some 0
            else js_div (running_sum (map block_confidence (page_blocks p)))
                   (real (length (page_blocks p)))) \<and>
         ((\<forall>b\<in>set (page_blocks p). 0 \<le> block_confidence b \<and> block_confidence b \<le> 1) \<and>
          page_blocks p \<noteq> [] \<and> length (page_blocks p) < 2 ^ 51 \<longrightarrow>
            (\<exists>v. page_confidence p = Some v \<and>
                 \<bar>v - sum_list (map block_confidence (page_blocks p)) /
                        real (length (page_blocks p))\<bar> \<le>
                 (real (length (page_blocks p)) + 2) / 2 ^ 52)) \<and>
         js_div (running_sum [8106479329266893 / 2 ^ 53, 7205759403792794 / 2 ^ 53,
                              6305039478318694 / 2 ^ 53]) 3 =
           Some (7205759403792795 / 2 ^ 53)"
proof (intro conjI impI)
  show c: "page_confidence p =
           (if page_blocks p = [] then Some 0
            else js_div (running_sum (map block_confidence (page_blocks p)))
                   (real (length (page_blocks p))))"
    using assms by (rule adapter_page_confidence)
  show "js_div (running_sum [8106479329266893 / 2 ^ 53, 7205759403792794 / 2 ^ 53,
                              6305039478318694 / 2 ^ 53]) 3 =
           Some (7205759403792795 / 2 ^ 53)"
    by (rule rounded_mean_three)
  assume h: "(\<forall>b\<in>set (page_blocks p). 0 \<le> block_confidence b \<and> block_confidence b \<le> 1) \<and>
          page_blocks p \<noteq> [] \<and> length (page_blocks p) < 2 ^ 51"
  define cs where "cs = map block_confidence (page_blocks p)"
  have "\<forall>c\<in>set cs. 0 \<le> c \<and> c \<le> 1" "cs \<noteq> []" "length cs < 2 ^ 51"
    using h by (auto simp add: cs_def)
  then have "\<exists>v. js_div (running_sum cs) (real (length cs)) = Some v \<and>
           \<bar>v - sum_list cs / real (length cs)\<bar> \<le> (real (length cs) + 2) / 2 ^ 52"
    by (rule rounded_mean_bound)
  then show "\<exists>v. page_confidence p = Some v \<and>
                 \<bar>v - sum_list (map block_confidence (page_blocks p)) /
                        real (length (page_blocks p))\<bar> \<le>
                 (real (length (page_blocks p)) + 2) / 2 ^ 52"
    using c h by (simp add: cs_def)
qed

lemma trim_Nil [simp]: "trim [] = []"
  by (simp add: trim_def)

text \<open>
  C4, as stated: when the provider's answer holds no block and no line at all, the
  adapter raises an error and the caller gets a failure. It fails for both providers:
  a Document AI document without pages, a Textract answer with an empty list of blocks
  and a Textract answer with a lone \<^verbatim>\<open>PAGE\<close> block are each answered with a
  successful OCR Result of one empty page.
\<close>

theorem empty_content_counterexample:
  "ocr_POST (configured None) decode_any empty_document no_textract ''2024-01-01T00:00:00.000Z''
     (Inr document_body) =
     OcrJson \<lparr>meta = \<lparr>meta_filename = JStr ''a.pdf'', meta_pages = 1,
                      meta_provider = ''google-document-ai'',
                      meta_processedAt = ''2024-01-01T00:00:00.000Z''\<rparr>,
              ocr = [\<lparr>page_page = 1, page_text = [], page_blocks = [], page_entities = [],
                      page_confidence = Some 0\<rparr>]\<rparr> \<and>
   ocr_POST (configured (Some ''aws'')) decode_any no_google empty_blocks
     ''2024-01-01T00:00:00.000Z'' (Inr document_body) =
     OcrJson \<lparr>meta = \<lparr>meta_filename = JStr ''a.pdf'', meta_pages = 1,
                      meta_provider = ''aws-textract'',
                      meta_processedAt = ''2024-01-01T00:00:00.000Z''\<rparr>,
              ocr = [\<lparr>page_page = 1, page_text = [], page_blocks = [], page_entities = [],
                      page_confidence = Some 0\<rparr>]\<rparr> \<and>
   ocr_POST (configured (Some ''aws'')) decode_any no_google page_only
     ''2024-01-01T00:00:00.000Z'' (Inr document_body) =
     OcrJson \<lparr>meta = \<lparr>meta_filename = JStr ''a.pdf'', meta_pages = 1,
                      meta_provider = ''aws-textract'',
                      meta_processedAt = ''2024-01-01T00:00:00.000Z''\<rparr>,
              ocr = [\<lparr>page_page = 1, page_text = [], page_blocks = [], page_entities = [],
                      page_confidence = Some 0\<rparr>]\<rparr>"
proof -
  have pre: "ocr_POST env decode_any processDocument send now (Inr document_body) =
     (case (if OCR_PROVIDER env = ''aws''
            then processWithAWSTextract send now [37, 80, 68, 70] (JStr ''a.pdf'')
            else processWithGoogleDocumentAI env processDocument now [37, 80, 68, 70]
                   (JStr ''a.pdf'') (JStr ''application/pdf'')) of
        Inl e \<Rightarrow> OcrError 500 ''OCR processing failed'' (Some (message e))
      | Inr result \<Rightarrow> OcrJson result)" for env processDocument send now
    by (simp add: ocr_POST_def document_body_def lookup_def decode_any_def js_or_def Let_def)
  have env: "OCR_PROVIDER (configured None) \<noteq> ''aws''"
    "OCR_PROVIDER (configured (Some ''aws'')) = ''aws''"
    by (simp_all add: OCR_PROVIDER_def configured_def str_or_def)
  have google: "processWithGoogleDocumentAI (configured None) empty_document now buf f m =
     Inr \<lparr>meta = \<lparr>meta_filename = f, meta_pages = 1, meta_provider = ''google-document-ai'',
                  meta_processedAt = now\<rparr>,
          ocr = [\<lparr>page_page = 1, page_text = [], page_blocks = [], page_entities = [],
                  page_confidence = Some 0\<rparr>]\<rparr>" for now buf f m
    by (simp add: processWithGoogleDocumentAI_def configured_def unset_def empty_document_def
        pageCount_def google_page_def page_at_def empty_acc_def acc_confidence_def Let_def)
  have aws: "processWithAWSTextract empty_blocks now buf f =
     Inr \<lparr>meta = \<lparr>meta_filename = f, meta_pages = 1, meta_provider = ''aws-textract'',
                  meta_processedAt = now\<rparr>,
          ocr = [\<lparr>page_page = 1, page_text = [], page_blocks = [], page_entities = [],
                  page_confidence = Some 0\<rparr>]\<rparr>"
    "processWithAWSTextract page_only now buf f =
     Inr \<lparr>meta = \<lparr>meta_filename = f, meta_pages = 1, meta_provider = ''aws-textract'',
                  meta_processedAt = now\<rparr>,
          ocr = [\<lparr>page_page = 1, page_text = [], page_blocks = [], page_entities = [],
                  page_confidence = Some 0\<rparr>]\<rparr>" for now buf f
    by (simp_all add: processWithAWSTextract_def empty_blocks_def page_only_def Let_def
        textract_step_def push_line_def push_key_value_def empty_acc_def acc_confidence_def)
  show ?thesis
    unfolding pre by (simp add: env google aws)
qed

lemma foldl_push_item_absent:
  assumes "\<forall>item\<in>set xs. layout item = None"
  shows "foldl (push_item prefix btype i fullText) acc xs = acc"
  using assms by (induction xs arbitrary: acc) (simp_all add: push_item_def)

lemma blocks_push_entity [simp]:
  "blocks (push_entity i acc e) = blocks acc"
  "pageText (push_entity i acc e) = pageText acc"
  "confidenceCount (push_entity i acc e) = confidenceCount acc"
  by (simp_all add: push_entity_def)

lemma foldl_push_entity_keeps:
  "blocks (foldl (push_entity i) acc es) = blocks acc \<and>
   pageText (foldl (push_entity i) acc es) = pageText acc \<and>
   confidenceCount (foldl (push_entity i) acc es) = confidenceCount acc"
  by (induction es arbitrary: acc) simp_all

lemma google_page_no_content:
  assumes "g_no_content document"
  shows "page_blocks (google_page document i) = [] \<and> page_text (google_page document i) = [] \<and>
         page_confidence (google_page document i) = Some 0"
proof -
  define fullText where "fullText = str_or (g_text document) []"
  define acc1 where "acc1 = (case page_at document i of
                    None \<Rightarrow> empty_acc
                  | Some p \<Rightarrow>
                      (case g_blocks p of
                         None \<Rightarrow> empty_acc
                       | Some bs \<Rightarrow> foldl (push_item ''block'' PARAGRAPH i fullText) empty_acc bs))"
  define acc2 where "acc2 = (if length (blocks acc1) = 0
                  then (case page_at document i of
                          None \<Rightarrow> acc1
                        | Some p \<Rightarrow>
                            (case g_lines p of
                               None \<Rightarrow> acc1
                             | Some ls \<Rightarrow> foldl (push_item ''line'' LINE i fullText) acc1 ls))
                  else acc1)"
  define acc3 where "acc3 = (case g_entities document of
                    None \<Rightarrow> acc2
                  | Some es \<Rightarrow> foldl (push_entity i) acc2 es)"
  have absent: "items_absent (g_blocks p) \<and> items_absent (g_lines p)"
    if "page_at document i = Some p" for p
    using that assms
    by (auto simp add: page_at_def g_no_content_def split: option.splits if_splits)
  have 1: "acc1 = empty_acc"
    unfolding acc1_def using absent
    by (auto simp add: items_absent_def foldl_push_item_absent split: option.splits)
  have 2: "acc2 = empty_acc"
    unfolding acc2_def 1 using absent
    by (auto simp add: items_absent_def foldl_push_item_absent split: option.splits)
  have 3: "blocks acc3 = [] \<and> pageText acc3 = [] \<and> confidenceCount acc3 = 0"
    unfolding acc3_def 2 using foldl_push_entity_keeps [of i empty_acc]
    by (simp add: empty_acc_def split: option.splits)
  have "google_page document i =
      \<lparr>page_page = i + 1, page_text = trim (pageText acc3), page_blocks = blocks acc3,
       page_entities = entities acc3, page_confidence = acc_confidence acc3\<rparr>"
    unfolding google_page_def Let_def acc3_def acc2_def acc1_def fullText_def
    by (rule refl)
  then show ?thesis using 3 by (simp add: acc_confidence_def)
qed

lemma pageCount_pos: "0 < pageCount document"
  by (simp add: pageCount_def split: option.splits)

lemma textract_step_no_line:
  "\<not> is_text_line block \<Longrightarrow>
     blocks (textract_step m acc block) = blocks acc \<and>
     pageText (textract_step m acc block) = pageText acc \<and>
     confidenceCount (textract_step m acc block) = confidenceCount acc"
  by (simp add: textract_step_def push_line_def push_key_value_def is_text_line_def Let_def)

lemma foldl_textract_no_content:
  assumes "a_no_content bs"
  shows "blocks (foldl (textract_step m) acc bs) = blocks acc \<and>
         pageText (foldl (textract_step m) acc bs) = pageText acc \<and>
         confidenceCount (foldl (textract_step m) acc bs) = confidenceCount acc"
  using assms
proof (induction bs arbitrary: acc)
  case Nil
  then show ?case by simp
next
  case (Cons b bs)
  then have "\<not> is_text_line b" "a_no_content bs"
    by (simp_all add: a_no_content_def)
  then show ?case
    using Cons.IH [of "textract_step m acc b"] textract_step_no_line [of b m acc] by simp
qed

lemma ocr_POST_result:
  assumes "truthy (js_get body ''document'')"
    and "Buffer_from (js_get body ''document'') = Some buf"
  shows "ocr_POST env Buffer_from processDocument send now (Inr body) =
     (case (if OCR_PROVIDER env = ''aws''
            then processWithAWSTextract send now buf
                   (js_or (js_get body ''filename'') (JStr ''document.pdf''))
            else processWithGoogleDocumentAI env processDocument now buf
                   (js_or (js_get body ''filename'') (JStr ''document.pdf''))
                   (js_or (js_get body ''mimeType'') (JStr ''application/pdf''))) of
        Inl e \<Rightarrow> OcrError 500 ''OCR processing failed'' (Some (message e))
      | Inr result \<Rightarrow> OcrJson result)"
proof -
  have "\<not> nullish body" using assms(1) by (cases body) simp_all
  then show ?thesis using assms by (simp add: ocr_POST_def Let_def)
qed

lemma google_adapter_cases:
  assumes "google_configured env" and "\<forall>req. processDocument req = Inr resp"
  shows "processWithGoogleDocumentAI env processDocument now buf filename mimeType =
     (case g_document resp of
        None \<Rightarrow> Inl (Error ''No document returned from Document AI'')
      | Some document \<Rightarrow>
          Inr \<lparr>meta = \<lparr>meta_filename = filename, meta_pages = pageCount document,
                       meta_provider = ''google-document-ai'', meta_processedAt = now\<rparr>,
               ocr = map (google_page document) [0..<pageCount document]\<rparr>)"
  using assms by (simp add: processWithGoogleDocumentAI_def google_configured_def)

text \<open>
  C4, amended: the adapter raises an error, answered with the 500 error
  \<open>OCR processing failed\<close>, when the provider's answer lacks its container (no document
  from Document AI, no \<open>Blocks\<close> field from Textract). When the container is there and
  holds nothing to extract, the answer is a successful OCR Result whose pages (one,
  for Textract) have no block, no text and confidence 0.
\<close>

theorem adapter_failure_amended:
  assumes "truthy (js_get body ''document'')"
    and "Buffer_from (js_get body ''document'') = Some buf"
  shows
   "(OCR_PROVIDER env \<noteq> ''aws'' \<and> google_configured env \<and>
     (\<forall>req. processDocument req = Inr gresp) \<longrightarrow>
       (g_document gresp = None \<longrightarrow>
          ocr_POST env Buffer_from processDocument send now (Inr body) =
            OcrError 500 ''OCR processing failed''
              (Some ''No document returned from Document AI'')) \<and>
       (\<forall>document. g_document gresp = Some document \<and> g_no_content document \<longrightarrow>
          (\<exists>r. ocr_POST env Buffer_from processDocument send now (Inr body) = OcrJson r \<and>
               ocr r \<noteq> [] \<and>
               (\<forall>p\<in>set (ocr r).
                  page_blocks p = [] \<and> page_text p = [] \<and> page_confidence p = Some 0)))) \<and>
    (OCR_PROVIDER env = ''aws'' \<and> send buf = Inr aresp \<longrightarrow>
       (Blocks aresp = None \<longrightarrow>
          ocr_POST env Buffer_from processDocument send now (Inr body) =
            OcrError 500 ''OCR processing failed'' (Some ''No blocks returned from Textract'')) \<and>
       (\<forall>bs. Blocks aresp = Some bs \<and> a_no_content bs \<longrightarrow>
          (\<exists>r p. ocr_POST env Buffer_from processDocument send now (Inr body) = OcrJson r \<and>
               ocr r = [p] \<and>
               page_blocks p = [] \<and> page_text p = [] \<and> page_confidence p = Some 0)))"
proof -
  note R = ocr_POST_result [of body Buffer_from buf env processDocument send now, OF assms]
  show ?thesis
proof (intro conjI impI allI)
  assume a: "OCR_PROVIDER env \<noteq> ''aws'' \<and> google_configured env \<and>
     (\<forall>req. processDocument req = Inr gresp)"
  assume "g_document gresp = None"
  then show "ocr_POST env Buffer_from processDocument send now (Inr body) =
            OcrError 500 ''OCR processing failed''
              (Some ''No document returned from Document AI'')"
    using a google_adapter_cases [of env processDocument gresp]
    by (simp add: R)
next
  fix document
  assume a: "OCR_PROVIDER env \<noteq> ''aws'' \<and> google_configured env \<and>
     (\<forall>req. processDocument req = Inr gresp)"
  assume d: "g_document gresp = Some document \<and> g_no_content document"
  let ?r = "\<lparr>meta = \<lparr>meta_filename = js_or (js_get body ''filename'') (JStr ''document.pdf''),
                       meta_pages = pageCount document,
                       meta_provider = ''google-document-ai'', meta_processedAt = now\<rparr>,
               ocr = map (google_page document) [0..<pageCount document]\<rparr>"
  have "ocr_POST env Buffer_from processDocument send now (Inr body) = OcrJson ?r"
    using a d google_adapter_cases [of env processDocument gresp]
    by (simp add: R)
  moreover have "ocr ?r \<noteq> []"
    using pageCount_pos [of document] by simp
  moreover have "\<forall>p\<in>set (ocr ?r).
                  page_blocks p = [] \<and> page_text p = [] \<and> page_confidence p = Some 0"
    using d google_page_no_content [of document] by auto
  ultimately show "\<exists>r. ocr_POST env Buffer_from processDocument send now (Inr body) = OcrJson r \<and>
               ocr r \<noteq> [] \<and>
               (\<forall>p\<in>set (ocr r).
                  page_blocks p = [] \<and> page_text p = [] \<and> page_confidence p = Some 0)"
    by blast
next
  assume a: "OCR_PROVIDER env = ''aws'' \<and> send buf = Inr aresp"
  assume "Blocks aresp = None"
  then show "ocr_POST env Buffer_from processDocument send now (Inr body) =
            OcrError 500 ''OCR processing failed'' (Some ''No blocks returned from Textract'')"
    using a by (simp add: R processWithAWSTextract_def)
next
  fix bs
  assume a: "OCR_PROVIDER env = ''aws'' \<and> send buf = Inr aresp"
  assume b: "Blocks aresp = Some bs \<and> a_no_content bs"
  define acc where "acc = foldl (textract_step (build_blockMap bs)) empty_acc bs"
  have k: "blocks acc = [] \<and> pageText acc = [] \<and> confidenceCount acc = 0"
    unfolding acc_def
    using b foldl_textract_no_content [of bs "build_blockMap bs" empty_acc]
    by (simp add: empty_acc_def)
  have "ocr_POST env Buffer_from processDocument send now (Inr body) =
      OcrJson \<lparr>meta = \<lparr>meta_filename = js_or (js_get body ''filename'') (JStr ''document.pdf''),
                       meta_pages = 1, meta_provider = ''aws-textract'',
                       meta_processedAt = now\<rparr>,
               ocr = [\<lparr>page_page = 1, page_text = trim (pageText acc),
                       page_blocks = blocks acc, page_entities = entities acc,
                       page_confidence = acc_confidence acc\<rparr>]\<rparr>"
    using a b
    by (simp add: R processWithAWSTextract_def Let_def acc_def)
  then show "\<exists>r p. ocr_POST env Buffer_from processDocument send now (Inr body) = OcrJson r \<and>
               ocr r = [p] \<and>
               page_blocks p = [] \<and> page_text p = [] \<and> page_confidence p = Some 0"
    using k by (simp add: acc_confidence_def)
qed
qed

section \<open>The OCR theorems at concrete provider answers\<close>


theorem page_confidence_rounded_mean_witness:
  "processWithAWSTextract three_lines ''2024-01-01T00:00:00.000Z'' [] (JStr ''a.pdf'') =
     Inr three_lines_result \<and>
   three_lines_page \<in> set (ocr three_lines_result) \<and>
   map block_confidence (page_blocks three_lines_page) =
     [8106479329266893 / 2 ^ 53, 7205759403792794 / 2 ^ 53, 6305039478318694 / 2 ^ 53] \<and>
   page_confidence three_lines_page = Some (7205759403792795 / 2 ^ 53) \<and>
   \<bar>7205759403792795 / 2 ^ 53 -
     (8106479329266893 / 2 ^ 53 + 7205759403792794 / 2 ^ 53 + 6305039478318694 / 2 ^ 53) / 3\<bar>
     \<le> (5 / 2 ^ 52 :: real)"
proof -
  have m: "three_lines_page \<in> set (ocr three_lines_result)"
    by (simp add: three_lines_result_def)
  have b: "map block_confidence (page_blocks three_lines_page) =
     [8106479329266893 / 2 ^ 53, 7205759403792794 / 2 ^ 53, 6305039478318694 / 2 ^ 53]"
    "page_blocks three_lines_page \<noteq> []" "length (page_blocks three_lines_page) = 3"
    by (simp_all add: three_lines_page_def line_block_def)
  have u: "\<forall>b\<in>set (page_blocks three_lines_page).
             0 \<le> block_confidence b \<and> block_confidence b \<le> 1"
    by (simp add: three_lines_page_def line_block_def)
  note T = page_confidence_rounded_mean [OF disjI2, OF three_lines_answer m]
  from T have c: "page_confidence three_lines_page =
      js_div (running_sum (map block_confidence (page_blocks three_lines_page)))
        (real (length (page_blocks three_lines_page)))"
    using b(2) by simp
  from T have "js_div (running_sum [8106479329266893 / 2 ^ 53, 7205759403792794 / 2 ^ 53,
                              6305039478318694 / 2 ^ 53]) 3 =
           Some (7205759403792795 / 2 ^ 53)"
    by (elim conjE)
  with c have v: "page_confidence three_lines_page = Some (7205759403792795 / 2 ^ 53)"
    unfolding b(1) b(3) by simp
  from T have imp:
    "(\<forall>b\<in>set (page_blocks three_lines_page).
        0 \<le> block_confidence b \<and> block_confidence b \<le> 1) \<and>
     page_blocks three_lines_page \<noteq> [] \<and> length (page_blocks three_lines_page) < 2 ^ 51 \<longrightarrow>
       (\<exists>v. page_confidence three_lines_page = Some v \<and>
            \<bar>v - sum_list (map block_confidence (page_blocks three_lines_page)) /
                   real (length (page_blocks three_lines_page))\<bar> \<le>
            (real (length (page_blocks three_lines_page)) + 2) / 2 ^ 52)"
    by (elim conjE)
  have "length (page_blocks three_lines_page) < 2 ^ 51"
    unfolding b(3) by simp
  with u b(2) have
    "(\<forall>b\<in>set (page_blocks three_lines_page).
        0 \<le> block_confidence b \<and> block_confidence b \<le> 1) \<and>
     page_blocks three_lines_page \<noteq> [] \<and> length (page_blocks three_lines_page) < 2 ^ 51"
    by (intro conjI)
  with imp have
    "\<exists>v. page_confidence three_lines_page = Some v \<and>
            \<bar>v - sum_list (map block_confidence (page_blocks three_lines_page)) /
                   real (length (page_blocks three_lines_page))\<bar> \<le>
            (real (length (page_blocks three_lines_page)) + 2) / 2 ^ 52"
    by (rule mp)
  then obtain w where w: "page_confidence three_lines_page = Some w"
    "\<bar>w - sum_list (map block_confidence (page_blocks three_lines_page)) /
            real (length (page_blocks three_lines_page))\<bar> \<le>
     (real (length (page_blocks three_lines_page)) + 2) / 2 ^ 52"
    by (elim exE conjE)
  from w(1) v have "w = 7205759403792795 / 2 ^ 53" by simp
  with w(2) have "\<bar>7205759403792795 / 2 ^ 53 -
     (8106479329266893 / 2 ^ 53 + 7205759403792794 / 2 ^ 53 + 6305039478318694 / 2 ^ 53) / 3\<bar>
     \<le> (5 / 2 ^ 52 :: real)"
    unfolding b(1) b(3) by simp
  with three_lines_answer m b(1) v show ?thesis by (intro conjI)
qed

theorem adapter_failure_amended_witness:
  "truthy (js_get document_body ''document'') \<and>
   decode_any (js_get document_body ''document'') = Some [37, 80, 68, 70] \<and>
   OCR_PROVIDER (configured None) \<noteq> ''aws'' \<and> google_configured (configured None) \<and>
   OCR_PROVIDER (configured (Some ''aws'')) = ''aws'' \<and>
   g_no_content \<lparr>g_text = None, g_pages = Some [], g_entities = None\<rparr> \<and>
   a_no_content [] \<and>
   ocr_POST (configured None) decode_any no_document no_textract ''now'' (Inr document_body) =
     OcrError 500 ''OCR processing failed'' (Some ''No document returned from Document AI'') \<and>
   (\<exists>r. ocr_POST (configured None) decode_any empty_document no_textract ''now''
           (Inr document_body) = OcrJson r \<and>
        ocr r \<noteq> [] \<and>
        (\<forall>p\<in>set (ocr r). page_blocks p = [] \<and> page_text p = [] \<and> page_confidence p = Some 0)) \<and>
   ocr_POST (configured (Some ''aws'')) decode_any no_google no_blocks ''now''
       (Inr document_body) =
     OcrError 500 ''OCR processing failed'' (Some ''No blocks returned from Textract'') \<and>
   (\<exists>r p. ocr_POST (configured (Some ''aws'')) decode_any no_google empty_blocks ''now''
             (Inr document_body) = OcrJson r \<and>
          ocr r = [p] \<and> page_blocks p = [] \<and> page_text p = [] \<and> page_confidence p = Some 0)"
proof -
  have h: "truthy (js_get document_body ''document'')"
    "decode_any (js_get document_body ''document'') = Some [37, 80, 68, 70]"
    by (simp_all add: document_body_def lookup_def decode_any_def)
  have c: "OCR_PROVIDER (configured None) \<noteq> ''aws''" "google_configured (configured None)"
    "OCR_PROVIDER (configured (Some ''aws'')) = ''aws''"
    "g_no_content \<lparr>g_text = None, g_pages = Some [], g_entities = None\<rparr>"
    "a_no_content []"
    by (simp_all add: OCR_PROVIDER_def configured_def str_or_def google_configured_def unset_def
        g_no_content_def a_no_content_def)
  note T = adapter_failure_amended [of document_body decode_any "[37, 80, 68, 70]", OF h]
  have 1: "ocr_POST (configured None) decode_any no_document no_textract ''now''
             (Inr document_body) =
     OcrError 500 ''OCR processing failed'' (Some ''No document returned from Document AI'')"
    using c T [where env = "configured None" and processDocument = no_document
        and gresp = "\<lparr>g_document = None\<rparr>" and send = no_textract and now = "''now''"]
    by (simp add: no_document_def)
  have 2: "\<exists>r. ocr_POST (configured None) decode_any empty_document no_textract ''now''
           (Inr document_body) = OcrJson r \<and>
        ocr r \<noteq> [] \<and>
        (\<forall>p\<in>set (ocr r). page_blocks p = [] \<and> page_text p = [] \<and> page_confidence p = Some 0)"
    using c T [where env = "configured None" and processDocument = empty_document
        and gresp = "\<lparr>g_document = Some \<lparr>g_text = None, g_pages = Some [], g_entities = None\<rparr>\<rparr>"
        and send = no_textract and now = "''now''"]
    by (simp add: empty_document_def)
  have 3: "ocr_POST (configured (Some ''aws'')) decode_any no_google no_blocks ''now''
       (Inr document_body) =
     OcrError 500 ''OCR processing failed'' (Some ''No blocks returned from Textract'')"
    using c T [where env = "configured (Some ''aws'')" and processDocument = no_google
        and aresp = "\<lparr>Blocks = None\<rparr>" and send = no_blocks and now = "''now''"]
    by (simp add: no_blocks_def)
  have 4: "\<exists>r p. ocr_POST (configured (Some ''aws'')) decode_any no_google empty_blocks ''now''
             (Inr document_body) = OcrJson r \<and>
          ocr r = [p] \<and> page_blocks p = [] \<and> page_text p = [] \<and> page_confidence p = Some 0"
    using c T [where env = "configured (Some ''aws'')" and processDocument = no_google
        and aresp = "\<lparr>Blocks = Some []\<rparr>" and send = empty_blocks and now = "''now''"]
    by (simp add: empty_blocks_def)
  from h c 1 2 3 4 show ?thesis by simp
qed

end
